theory Spec2Isabelle
  imports Complex_Main "HOL-Library.Word" "HOL-Library.Multiset" "HOL-Library.AList"
begin

section \<open>Strings\<close>

text \<open>
  A Python \<open>str\<close> is a sequence of Unicode code points, and \<open>len\<close> and slicing count
  code points. A code point is modelled by its number, so that a string of the model has
  one element for each element of the Python string. \<open>lit\<close> turns a literal of the
  source, all of them ASCII, into such a string.
\<close>

type_synonym codepoint = nat
type_synonym str = "codepoint list"

definition lit :: "string \<Rightarrow> str" where
  "lit s = map of_char s"

text \<open>
  \<open>str(n)\<close> of an integer, as an f-string renders it: decimal digits, and a minus sign
  for a negative number.
\<close>

fun show_nat :: "nat \<Rightarrow> str" where
  "show_nat n = (if n < 10 then [48 + n] else show_nat (n div 10) @ [48 + n mod 10])"

declare show_nat.simps [simp del]

definition show_int :: "int \<Rightarrow> str" where
  "show_int i = (if i < 0 then lit ''-'' @ show_nat (nat (- i)) else show_nat (nat i))"

text \<open>
  \<open>str.strip()\<close> removes the leading and trailing characters for which \<open>str.isspace\<close>
  holds.
\<close>

definition isspace :: "codepoint \<Rightarrow> bool" where
  "isspace c \<longleftrightarrow>
     (9 \<le> c \<and> c \<le> 13) \<or> (28 \<le> c \<and> c \<le> 32) \<or> c = 133 \<or> c = 160 \<or> c = 5760
     \<or> (8192 \<le> c \<and> c \<le> 8202) \<or> c = 8232 \<or> c = 8233 \<or> c = 8239 \<or> c = 8287 \<or> c = 12288"

definition strip :: "str \<Rightarrow> str" where
  "strip s = rev (dropWhile isspace (rev (dropWhile isspace s)))"

section \<open>The title sanitizer\<close>

text \<open>
  \<^verbatim>\<open>
  def sanitize_filename(name: str) -> str:
      return re.sub(r'[<>:"/\\|?*]', '', name)[:200]
  \<close>
  The pattern is one character class of nine characters: \<open>< > : " / \ | ? *\<close>
  (the two backslashes of the raw string are the class's escaped backslash). Replacing
  every match by the empty string keeps the other characters in order; the slice keeps
  the first 200 of them.
\<close>

definition invalid_chars :: "codepoint list" where
  "invalid_chars =
     lit [CHR ''<'', CHR ''>'', CHR '':'', CHR 0x22, CHR ''/'', CHR 0x5C, CHR ''|'', CHR ''?'',
          CHR ''*'']"

definition sanitize_filename :: "str \<Rightarrow> str" where
  "sanitize_filename name = take 200 (filter (\<lambda>c. c \<notin> set invalid_chars) name)"

section \<open>Dictionaries of the extraction engine\<close>

text \<open>
  The extraction engine returns dictionaries. The handlers read a fixed set of keys, so
  a dictionary is a record with one field for each key read, and a field says whether
  the key is missing, is stored with the value \<open>None\<close>, or is stored with a value of
  the type the engine documents for it. \<open>d.get(k)\<close> does not tell a missing key from a
  stored \<open>None\<close>; \<open>d.get(k, default)\<close> does. An \<open>option\<close> is a Python value that may
  be \<open>None\<close>.
\<close>

datatype 'a field = Missing | Null | Value 'a

definition get :: "'a field \<Rightarrow> 'a option" where
  "get x = (case x of Value v \<Rightarrow> Some v | _ \<Rightarrow> None)"

definition get_or :: "'a field \<Rightarrow> 'a \<Rightarrow> 'a option" where
  "get_or x d = (case x of Missing \<Rightarrow> Some d | Null \<Rightarrow> None | Value v \<Rightarrow> Some v)"

text \<open>
  Truth value testing: \<open>None\<close>, an empty string or list, and a zero number are false.
\<close>

definition truthy_seq :: "'a list option \<Rightarrow> bool" where
  "truthy_seq x = (case x of None \<Rightarrow> False | Some s \<Rightarrow> s \<noteq> [])"

definition truthy_num :: "'a::zero option \<Rightarrow> bool" where
  "truthy_num x = (case x of None \<Rightarrow> False | Some n \<Rightarrow> n \<noteq> 0)"

text \<open>
  \<open>f"{d.get(k, default)}"\<close> for a key that holds an integer: the default for a missing
  key, the text \<open>None\<close> for a stored \<open>None\<close>.
\<close>

definition format_or :: "('a \<Rightarrow> str) \<Rightarrow> 'a field \<Rightarrow> str \<Rightarrow> str" where
  "format_or shw x d = (case x of Missing \<Rightarrow> d | Null \<Rightarrow> lit ''None'' | Value v \<Rightarrow> shw v)"

text \<open>
  A bitrate is a float; a finite float is a rational number, and \<open>int(x)\<close> truncates it
  towards zero.
\<close>

definition int_of_float :: "rat \<Rightarrow> int" where
  "int_of_float q = (if q < 0 then - \<lfloor>- q\<rfloor> else \<lfloor>q\<rfloor>)"

record raw_format =
  f_format_id :: "str field"
  f_ext :: "str field"
  f_vcodec :: "str field"
  f_acodec :: "str field"
  f_width :: "int field"
  f_height :: "int field"
  f_resolution :: "str field"
  f_format_note :: "str field"
  f_tbr :: "rat field"
  f_filesize :: "int field"

text \<open>An element of \<open>thumbnails\<close> is a dictionary, read at its key \<open>url\<close> only.\<close>

type_synonym thumbnail_dict = "str field"

record info_dict =
  i_title :: "str field"
  i_thumbnail :: "str field"
  i_thumbnails :: "thumbnail_dict list field"
  i_formats :: "raw_format list field"
  i_url :: "str field"
  i_ext :: "str field"
  i_width :: "int field"
  i_height :: "int field"
  i_filesize :: "int field"

section \<open>Exceptions\<close>

text \<open>
  \<open>Exception msg\<close> is an exception whose text \<open>str(e)\<close> the program or a collaborator
  chose. The text of an exception that the interpreter or a library raises is theirs to
  choose, and is a parameter of the model (\<open>describe_error\<close> below).
\<close>

datatype builtin_error =
  FileNotFoundError | IsADirectoryError | PermissionError | UnicodeEncodeError
  | UnicodeDecodeError | KeyError str | TypeError | ValidationError

datatype exn = Exception str | Builtin builtin_error

section \<open>The response models\<close>

text \<open>
  \<^verbatim>\<open>
  class FormatInfo(BaseModel):
      format_id: str
      ext: str
      resolution: str
      note: str
      type: str
      filesize: Optional[int]
      height: int

  class FormatsResponse(BaseModel):
      status: str
      title: str
      thumbnail: str
      formats: List[FormatInfo]
  \<close>
  Constructing a model validates its fields: \<open>None\<close> for a field that is not
  \<open>Optional\<close> raises a validation error. (The field \<open>note\<close> is written \<open>note'\<close>.)
\<close>

record FormatInfo =
  format_id :: str
  ext :: str
  resolution :: str
  note' :: str
  type :: str
  filesize :: "int option"
  height :: int

record FormatsResponse =
  status :: str
  title :: str
  thumbnail :: str
  formats :: "FormatInfo list"

definition FormatInfo_init ::
  "str option \<Rightarrow> str option \<Rightarrow> str option \<Rightarrow> str option \<Rightarrow> str option \<Rightarrow> int option \<Rightarrow> int option
   \<Rightarrow> exn + FormatInfo" where
  "FormatInfo_init a_format_id a_ext a_resolution a_note a_type a_filesize a_height =
     (case (a_format_id, a_ext, a_resolution, a_note, a_type, a_height) of
        (Some i, Some e, Some r, Some n, Some t, Some h) \<Rightarrow>
          Inr \<lparr>format_id = i, ext = e, resolution = r, note' = n, type = t,
               filesize = a_filesize, height = h\<rparr>
      | _ \<Rightarrow> Inl (Builtin ValidationError))"

definition FormatsResponse_init ::
  "str option \<Rightarrow> str option \<Rightarrow> str option \<Rightarrow> FormatInfo list \<Rightarrow> exn + FormatsResponse" where
  "FormatsResponse_init a_status a_title a_thumbnail a_formats =
     (case (a_status, a_title, a_thumbnail) of
        (Some s, Some t, Some th) \<Rightarrow>
          Inr \<lparr>status = s, title = t, thumbnail = th, formats = a_formats\<rparr>
      | _ \<Rightarrow> Inl (Builtin ValidationError))"

section \<open>The format catalog\<close>

text \<open>
  The body of the loop over \<open>raw_formats\<close> in \<open>get_formats\<close>:
  \<^verbatim>\<open>
  vcodec = f.get('vcodec')
  acodec = f.get('acodec')
  height = f.get('height') or 0
  has_video = vcodec and vcodec != 'none'
  has_audio = acodec and acodec != 'none'
  if has_video and not has_audio:
      type_label = "video"
  elif has_audio and not has_video:
      type_label = "audio"
  elif has_video and has_audio:
      type_label = "combined"
  else:
      continue
  bitrate = f.get('tbr')
  note = f.get('format_note', '')
  if bitrate:
      note = f"{note} ({int(bitrate)}kbps)".strip()
  formats.append(FormatInfo(
      format_id=f['format_id'],
      ext=f.get('ext', ''),
      resolution=f.get('resolution') or f"{f.get('width','?')}x{height}",
      note=note,
      type=type_label,
      filesize=f.get('filesize'),
      height=height,
  ))
  \<close>
\<close>

definition has_video :: "raw_format \<Rightarrow> bool" where
  "has_video f = (let vcodec = get (f_vcodec f) in truthy_seq vcodec \<and> vcodec \<noteq> Some (lit ''none''))"

definition has_audio :: "raw_format \<Rightarrow> bool" where
  "has_audio f = (let acodec = get (f_acodec f) in truthy_seq acodec \<and> acodec \<noteq> Some (lit ''none''))"

definition type_label :: "raw_format \<Rightarrow> str option" where
  "type_label f =
     (if has_video f \<and> \<not> has_audio f then Some (lit ''video'')
      else if has_audio f \<and> \<not> has_video f then Some (lit ''audio'')
      else if has_video f \<and> has_audio f then Some (lit ''combined'')
      else None)"

definition format_height :: "raw_format \<Rightarrow> int" where
  "format_height f = (case get (f_height f) of None \<Rightarrow> 0 | Some h \<Rightarrow> if h \<noteq> 0 then h else 0)"

definition format_note :: "raw_format \<Rightarrow> str option" where
  "format_note f =
     (let bitrate = get (f_tbr f);
          note = get_or (f_format_note f) []
      in if truthy_num bitrate
         then Some (strip ((case note of None \<Rightarrow> lit ''None'' | Some n \<Rightarrow> n) @ lit '' (''
                @ show_int (int_of_float (the bitrate)) @ lit ''kbps)''))
         else note)"

definition format_resolution :: "raw_format \<Rightarrow> str" where
  "format_resolution f =
     (let r = get (f_resolution f)
      in if truthy_seq r then the r
         else format_or show_int (f_width f) (lit ''?'') @ lit ''x'' @ show_int (format_height f))"

text \<open>
  One turn of the loop: \<open>Inr None\<close> when the record is skipped (\<open>continue\<close>),
  \<open>Inr (Some d)\<close> when \<open>d\<close> is appended, \<open>Inl e\<close> when \<open>e\<close> is raised:
  \<open>f['format_id']\<close> raises for a missing key, and the model's validation raises for a
  \<open>None\<close> in a field that must be a string.
\<close>

definition describe_format :: "raw_format \<Rightarrow> exn + FormatInfo option" where
  "describe_format f =
     (case type_label f of
        None \<Rightarrow> Inr None
      | Some label \<Rightarrow>
          (case f_format_id f of
             Missing \<Rightarrow> Inl (Builtin (KeyError (lit ''format_id'')))
           | fid \<Rightarrow>
               (case FormatInfo_init (get fid) (get_or (f_ext f) []) (Some (format_resolution f))
                       (format_note f) (Some label) (get (f_filesize f)) (Some (format_height f)) of
                  Inl e \<Rightarrow> Inl e
                | Inr d \<Rightarrow> Inr (Some d))))"

fun collect_formats :: "raw_format list \<Rightarrow> FormatInfo list \<Rightarrow> exn + FormatInfo list" where
  "collect_formats [] acc = Inr acc"
| "collect_formats (f # raw_formats) acc =
     (case describe_format f of
        Inl e \<Rightarrow> Inl e
      | Inr None \<Rightarrow> collect_formats raw_formats acc
      | Inr (Some d) \<Rightarrow> collect_formats raw_formats (acc @ [d]))"

text \<open>
  The fallback for a result without a format listing:
  \<^verbatim>\<open>
  formats.append(FormatInfo(
      format_id='default',
      ext=info.get('ext', 'mp4'),
      resolution=f"{info.get('width', '?')}x{info.get('height', '?')}",
      note='Default Source',
      type='combined',
      filesize=info.get('filesize'),
      height=info.get('height', 0),
  ))
  \<close>
\<close>

definition synthetic_format :: "info_dict \<Rightarrow> exn + FormatInfo" where
  "synthetic_format info =
     FormatInfo_init (Some (lit ''default'')) (get_or (i_ext info) (lit ''mp4''))
       (Some (format_or show_int (i_width info) (lit ''?'') @ lit ''x''
              @ format_or show_int (i_height info) (lit ''?'')))
       (Some (lit ''Default Source'')) (Some (lit ''combined'')) (get (i_filesize info))
       (get_or (i_height info) 0)"

text \<open>
  \<^verbatim>\<open>formats.sort(key=lambda x: x.height, reverse=True)\<close>
  Python's sort is stable, and with \<open>reverse=True\<close> it reverses the list, sorts it
  stably in ascending order of the key, and reverses the result. \<open>sort_key\<close> is a stable
  sort, and a list has one stable sorting only.
\<close>

definition sort_formats :: "FormatInfo list \<Rightarrow> FormatInfo list" where
  "sort_formats fs = rev (sort_key height (rev fs))"

text \<open>
  \<^verbatim>\<open>
  thumbnail = info.get('thumbnail')
  if not thumbnail and info.get('thumbnails'):
      thumbnails = info.get('thumbnails', [])
      if thumbnails:
          thumbnail = thumbnails[-1].get('url')
  \<close>
\<close>

definition select_thumbnail :: "info_dict \<Rightarrow> str option" where
  "select_thumbnail info =
     (let thumbnail = get (i_thumbnail info)
      in if \<not> truthy_seq thumbnail \<and> truthy_seq (get (i_thumbnails info))
         then (case get_or (i_thumbnails info) [] of
                 None \<Rightarrow> thumbnail
               | Some thumbnails \<Rightarrow> if thumbnails \<noteq> [] then get (last thumbnails) else thumbnail)
         else thumbnail)"

text \<open>
  What \<open>get_formats\<close> computes from the extracted \<open>info\<close>, inside its \<open>try\<close>.
  \<^verbatim>\<open>
  formats = []
  raw_formats = info.get('formats', [])
  if not raw_formats:
      if info.get('url'):
          formats.append(FormatInfo(...))
  for f in raw_formats:
      ...
  \<close>
  Iterating over \<open>None\<close> raises a type error.
\<close>

definition fallback_formats :: "info_dict \<Rightarrow> exn + FormatInfo list" where
  "fallback_formats info =
     (let raw_formats = get_or (i_formats info) []
      in if \<not> truthy_seq raw_formats \<and> truthy_seq (get (i_url info))
         then (case synthetic_format info of Inl e \<Rightarrow> Inl e | Inr d \<Rightarrow> Inr [d])
         else Inr [])"

definition unsorted_formats :: "info_dict \<Rightarrow> exn + FormatInfo list" where
  "unsorted_formats info =
     (case fallback_formats info of
        Inl e \<Rightarrow> Inl e
      | Inr formats0 \<Rightarrow>
          (case get_or (i_formats info) [] of
             None \<Rightarrow> Inl (Builtin TypeError)
           | Some raw_formats \<Rightarrow> collect_formats raw_formats formats0))"

text \<open>
  \<^verbatim>\<open>
  title = info.get('title', 'Unknown Title')
  ...
  formats.sort(key=lambda x: x.height, reverse=True)
  return FormatsResponse(
      status="success",
      title=title,
      thumbnail=thumbnail or '',
      formats=formats
  )
  \<close>
\<close>

definition formats_response :: "info_dict \<Rightarrow> exn + FormatsResponse" where
  "formats_response info =
     (let title = get_or (i_title info) (lit ''Unknown Title'');
          thumbnail = select_thumbnail info
      in case unsorted_formats info of
           Inl e \<Rightarrow> Inl e
         | Inr unsorted \<Rightarrow>
             FormatsResponse_init (Some (lit ''success'')) title
               (Some (if truthy_seq thumbnail then the thumbnail else []))
               (sort_formats unsorted))"

section \<open>The workspace directory\<close>

text \<open>
  \<open>TEMP_DIR\<close> is a directory; the handlers name its direct children only. An entry is a
  regular file, with its time of last modification and its bytes, or a directory. A
  file can be one that \<open>unlink\<close> fails on (\<open>locked\<close>: a file held open under Windows, a
  directory that forbids deletion), which is what the \<open>try\<close> around each \<open>unlink\<close> of
  the source is for. Times are seconds; a finite float is a rational number.
\<close>

type_synonym byte = "8 word"
type_synonym time = rat

datatype entry = File (mtime: time) (content: "byte list") (locked: bool) | Dir

type_synonym workspace = "(str \<times> entry) list"

definition exists_path :: "workspace \<Rightarrow> str \<Rightarrow> bool" where
  "exists_path ws p = (map_of ws p \<noteq> None)"

definition unlink :: "str \<Rightarrow> workspace \<Rightarrow> exn + workspace" where
  "unlink p ws =
     (case map_of ws p of
        None \<Rightarrow> Inl (Builtin FileNotFoundError)
      | Some Dir \<Rightarrow> Inl (Builtin IsADirectoryError)
      | Some (File m c l) \<Rightarrow> if l then Inl (Builtin PermissionError) else Inr (AList.delete p ws))"

text \<open>
  \<^verbatim>\<open>
  try:
      f.unlink()
  except:
      pass
  \<close>
\<close>

definition try_unlink :: "str \<Rightarrow> workspace \<Rightarrow> workspace" where
  "try_unlink p ws = (case unlink p ws of Inl e \<Rightarrow> ws | Inr ws' \<Rightarrow> ws')"

definition open_rb :: "str \<Rightarrow> workspace \<Rightarrow> exn + byte list" where
  "open_rb p ws =
     (case map_of ws p of
        None \<Rightarrow> Inl (Builtin FileNotFoundError)
      | Some Dir \<Rightarrow> Inl (Builtin IsADirectoryError)
      | Some (File m c l) \<Rightarrow> Inr c)"

definition glob :: "workspace \<Rightarrow> str list" where
  "glob ws = map fst ws"

text \<open>
  \<^verbatim>\<open>
  def cleanup_old_files():
      """Remove files older than 1 hour"""
      import time
      now = time.time()
      for f in TEMP_DIR.glob("*"):
          if f.is_file() and (now - f.stat().st_mtime) > 3600:
              try:
                  f.unlink()
              except:
                  pass
  \<close>
\<close>

definition is_stale :: "time \<Rightarrow> workspace \<Rightarrow> str \<Rightarrow> bool" where
  "is_stale t ws f = (case map_of ws f of Some (File m c l) \<Rightarrow> t - m > 3600 | _ \<Rightarrow> False)"

fun cleanup_loop :: "time \<Rightarrow> str list \<Rightarrow> workspace \<Rightarrow> workspace" where
  "cleanup_loop t [] ws = ws"
| "cleanup_loop t (f # fs) ws =
     cleanup_loop t fs (if is_stale t ws f then try_unlink f ws else ws)"

section \<open>The result streamer\<close>

text \<open>
  \<^verbatim>\<open>
  def file_iterator():
      with open(output_file, 'rb') as f:
          while chunk := f.read(1024 * 1024):  # 1MB chunks
              yield chunk
      # Cleanup after sending
      try:
          output_file.unlink()
      except:
          pass
  \<close>
  \<open>f.read(n)\<close> on a regular file returns the next \<open>n\<close> bytes, or all that are left when
  they are fewer. \<open>read_loop\<close> is the sequence of chunks the loop yields when it runs to
  its end.
\<close>

definition chunk_size :: nat where
  "chunk_size = 1024 * 1024"

function read_loop :: "byte list \<Rightarrow> byte list list" where
  "read_loop rest =
     (let chunk = take chunk_size rest
      in if chunk \<noteq> [] then chunk # read_loop (drop chunk_size rest) else [])"
  by pat_completeness auto
termination
  by (relation "measure length") (auto simp: chunk_size_def)

declare read_loop.simps [simp del]

text \<open>
  The generator is a state machine. It is \<open>Created\<close> until its first \<open>next\<close>;
  \<open>Suspended rest\<close> at the \<open>yield\<close>, inside the \<open>with\<close>, with \<open>rest\<close> still unread;
  \<open>Finished\<close> once it has returned, raised or been closed. \<open>next_chunk\<close> resumes it:
  the loop's test reads, and either the generator yields the chunk, or the loop and the
  \<open>with\<close> end, the file is unlinked and the generator returns.
\<close>

datatype file_iterator = Created | Suspended "byte list" | Finished

datatype resumption = Yield "byte list" | StopIteration | Raise exn

definition loop_step ::
  "str \<Rightarrow> byte list \<Rightarrow> workspace \<Rightarrow> resumption \<times> file_iterator \<times> workspace" where
  "loop_step output rest ws =
     (let chunk = take chunk_size rest
      in if chunk \<noteq> [] then (Yield chunk, Suspended (drop chunk_size rest), ws)
         else (StopIteration, Finished, try_unlink output ws))"

fun next_chunk ::
  "str \<Rightarrow> file_iterator \<Rightarrow> workspace \<Rightarrow> resumption \<times> file_iterator \<times> workspace" where
  "next_chunk output Created ws =
     (case open_rb output ws of
        Inl e \<Rightarrow> (Raise e, Finished, ws)
      | Inr bytes \<Rightarrow> loop_step output bytes ws)"
| "next_chunk output (Suspended rest) ws = loop_step output rest ws"
| "next_chunk output Finished ws = (StopIteration, Finished, ws)"

text \<open>
  Closing the generator (the server does so when the client disconnects) raises
  \<open>GeneratorExit\<close> at the \<open>yield\<close>: the \<open>with\<close> closes the file and the exception leaves
  the function, so the statements after the \<open>with\<close> do not run. A generator that is
  dropped without being closed does not run them either.
\<close>

definition close :: "file_iterator \<Rightarrow> workspace \<Rightarrow> file_iterator \<times> workspace" where
  "close g ws = (Finished, ws)"

text \<open>
  The server's side of the delivery: it asks for the next chunk and sends it, until the
  generator returns or raises. \<open>deliver n\<close> is a delivery that makes at most \<open>n\<close>
  requests; it returns the chunks sent.
\<close>

fun deliver ::
  "nat \<Rightarrow> str \<Rightarrow> file_iterator \<Rightarrow> workspace \<Rightarrow> byte list list \<times> file_iterator \<times> workspace" where
  "deliver 0 output g ws = ([], g, ws)"
| "deliver (Suc n) output g ws =
     (case next_chunk output g ws of
        (Yield chunk, g', ws') \<Rightarrow>
          (case deliver n output g' ws' of
             (chunks, g'', ws'') \<Rightarrow> (chunk # chunks, g'', ws''))
      | (r, g', ws') \<Rightarrow> ([], g', ws'))"

section \<open>The environment of a request\<close>

text \<open>
  What a handler reads from outside the program: the clock, the process environment,
  the random job identifier, the codecs, the texts of the interpreter's exceptions, and
  the two collaborators. The extraction engine (\<open>extract_info\<close>, \<open>download\<close>) and the
  combiner (\<open>ffmpeg\<close>, through \<open>subprocess.run\<close>) are any functions that return a result
  or raise, and change the workspace as they like. The clock does not advance during a
  request.
\<close>

record URLRequest =
  url :: str
  proxy :: "str option"

record DownloadRequest = URLRequest +
  video_format :: str
  audio_format :: str

record ydl_opts =
  opt_quiet :: bool
  opt_no_warnings :: bool
  opt_skip_download :: bool
  opt_proxy :: "str option"
  opt_cookiefile :: "str option"
  opt_logtostderr :: bool
  opt_format :: "str option"
  opt_outtmpl :: "str option"

record completed_process =
  returncode :: int
  stderr :: "byte list"

record env =
  now :: time
  COOKIES_CONTENT :: "str option"
  local_cookies :: bool
  TEMP_DIR :: str
  uuid4 :: str
  encode_utf8 :: "str \<Rightarrow> byte list option"
  decode_utf8 :: "byte list \<Rightarrow> str option"
  describe_error :: "builtin_error \<Rightarrow> str"
  extract_info :: "str \<Rightarrow> ydl_opts \<Rightarrow> workspace \<Rightarrow> (exn + info_dict) \<times> workspace"
  download :: "str \<Rightarrow> ydl_opts \<Rightarrow> workspace \<Rightarrow> (exn + unit) \<times> workspace"
  ffmpeg :: "str list \<Rightarrow> workspace \<Rightarrow> (exn + completed_process) \<times> workspace"

text \<open>
  A handler returns its response, raises an \<open>HTTPException\<close> with a status code and a
  detail, or lets an exception escape to the framework.
\<close>

datatype 'a outcome = Returned 'a | HTTPException nat str | Uncaught exn

definition exn_str :: "env \<Rightarrow> exn \<Rightarrow> str" where
  "exn_str env e = (case e of Exception msg \<Rightarrow> msg | Builtin b \<Rightarrow> describe_error env b)"

text \<open>\<open>str(TEMP_DIR / name)\<close>\<close>

definition path_str :: "env \<Rightarrow> str \<Rightarrow> str" where
  "path_str env name = TEMP_DIR env @ lit ''/'' @ name"

definition cleanup_old_files :: "env \<Rightarrow> workspace \<Rightarrow> workspace" where
  "cleanup_old_files env ws = cleanup_loop (now env) (glob ws) ws"

text \<open>
  \<^verbatim>\<open>
  cookie_file = None
  if os.environ.get('COOKIES_CONTENT'):
      cookie_path = TEMP_DIR / "cookies.txt"
      with open(cookie_path, "w", encoding="utf-8") as f:
          f.write(os.environ['COOKIES_CONTENT'])
      cookie_file = str(cookie_path)
  elif os.path.exists("cookies.txt"):          # get_formats only
      cookie_file = "cookies.txt"
  \<close>
  Opening for writing creates or truncates the file, and fails on a directory; the
  write fails on text that has no UTF-8 encoding.
\<close>

definition write_cookies :: "env \<Rightarrow> str \<Rightarrow> workspace \<Rightarrow> (exn + unit) \<times> workspace" where
  "write_cookies env text ws =
     (let cookie_path = lit ''cookies.txt''
      in case map_of ws cookie_path of
           Some Dir \<Rightarrow> (Inl (Builtin IsADirectoryError), ws)
         | old \<Rightarrow>
             (let l = (case old of Some (File m c l) \<Rightarrow> l | _ \<Rightarrow> False)
              in case encode_utf8 env text of
                   None \<Rightarrow>
                     (Inl (Builtin UnicodeEncodeError),
                      AList.update cookie_path (File (now env) [] l) ws)
                 | Some bytes \<Rightarrow>
                     (Inr (), AList.update cookie_path (File (now env) bytes l) ws)))"

definition cookies_from_env :: "env \<Rightarrow> workspace \<Rightarrow> (exn + str option) \<times> workspace" where
  "cookies_from_env env ws =
     (if truthy_seq (COOKIES_CONTENT env)
      then (case write_cookies env (the (COOKIES_CONTENT env)) ws of
              (Inl e, ws') \<Rightarrow> (Inl e, ws')
            | (Inr u, ws') \<Rightarrow> (Inr (Some (path_str env (lit ''cookies.txt''))), ws'))
      else (Inr None, ws))"

definition cookies_for_formats :: "env \<Rightarrow> workspace \<Rightarrow> (exn + str option) \<times> workspace" where
  "cookies_for_formats env ws =
     (if truthy_seq (COOKIES_CONTENT env) then cookies_from_env env ws
      else if local_cookies env then (Inr (Some (lit ''cookies.txt'')), ws)
      else (Inr None, ws))"

text \<open>\<^verbatim>\<open>'proxy': request.proxy if request.proxy else None\<close>\<close>

definition request_proxy :: "'a URLRequest_scheme \<Rightarrow> str option" where
  "request_proxy request = (if truthy_seq (proxy request) then proxy request else None)"

section \<open>The handler of a catalog request\<close>

text \<open>
  \<open>get_formats\<close>: the sweep, the cookie file (outside the \<open>try\<close>), then inside the
  \<open>try\<close> the extraction and the catalog; every exception raised there becomes
  \<^verbatim>\<open>HTTPException(status_code=400, detail=f"Extraction failed: {error_msg}")\<close>.
\<close>

definition get_formats ::
  "env \<Rightarrow> URLRequest \<Rightarrow> workspace \<Rightarrow> FormatsResponse outcome \<times> workspace" where
  "get_formats env request ws0 =
     (let ws1 = cleanup_old_files env ws0
      in case cookies_for_formats env ws1 of
           (Inl e, ws2) \<Rightarrow> (Uncaught e, ws2)
         | (Inr cookie_file, ws2) \<Rightarrow>
             (let opts = \<lparr>opt_quiet = False, opt_no_warnings = False, opt_skip_download = True,
                         opt_proxy = request_proxy request, opt_cookiefile = cookie_file,
                         opt_logtostderr = True, opt_format = None, opt_outtmpl = None\<rparr>
              in case extract_info env (url request) opts ws2 of
                   (Inl e, ws3) \<Rightarrow>
                     (HTTPException 400 (lit ''Extraction failed: '' @ exn_str env e), ws3)
                 | (Inr info, ws3) \<Rightarrow>
                     (case formats_response info of
                        Inl e \<Rightarrow>
                          (HTTPException 400 (lit ''Extraction failed: '' @ exn_str env e), ws3)
                      | Inr response \<Rightarrow> (Returned response, ws3))))"

section \<open>The handler of a download request\<close>

text \<open>
  \<^verbatim>\<open>
  job_id = str(uuid.uuid4())[:8]
  video_file = TEMP_DIR / f"{job_id}_video.mp4"
  audio_file = TEMP_DIR / f"{job_id}_audio.m4a"
  output_file = TEMP_DIR / f"{job_id}_merged.mp4"
  \<close>
\<close>

definition job_id :: "env \<Rightarrow> str" where
  "job_id env = take 8 (uuid4 env)"

definition video_file :: "env \<Rightarrow> str" where
  "video_file env = job_id env @ lit ''_video.mp4''"

definition audio_file :: "env \<Rightarrow> str" where
  "audio_file env = job_id env @ lit ''_audio.m4a''"

definition output_file :: "env \<Rightarrow> str" where
  "output_file env = job_id env @ lit ''_merged.mp4''"

text \<open>
  The response carries the generator \<open>file_iterator()\<close>, not yet started, which reads
  \<open>content_file\<close>.
\<close>

record StreamingResponse =
  content_file :: str
  media_type :: str
  headers :: "(str \<times> str) list"

text \<open>
  The end of the \<open>try\<close>, after the combiner has succeeded:
  \<^verbatim>\<open>
  if video_file.exists():
      video_file.unlink()
  if audio_file.exists():
      audio_file.unlink()
  filename = f"{title}.mp4"
  ...
  return StreamingResponse(
      file_iterator(),
      media_type='video/mp4',
      headers={
          'Content-Disposition': f'attachment; filename="{filename}"',
          'Content-Type': 'video/mp4',
      }
  )
  \<close>
\<close>

text \<open>
  Constructing the response encodes every header name and value as latin-1
  (\<open>init_headers\<close>), which raises for a code point above 255; this happens inside the
  \<open>try\<close>.
\<close>

definition latin1 :: "str \<Rightarrow> bool" where
  "latin1 s = list_all (\<lambda>c. c < 256) s"

definition unlink_if_exists :: "str \<Rightarrow> workspace \<Rightarrow> exn + workspace" where
  "unlink_if_exists f ws = (if exists_path ws f then unlink f ws else Inr ws)"

definition deliver_stage ::
  "env \<Rightarrow> str \<Rightarrow> workspace \<Rightarrow> (exn + StreamingResponse) \<times> workspace" where
  \<open>deliver_stage env safe_title ws =
     (case unlink_if_exists (video_file env) ws of
        Inl e \<Rightarrow> (Inl e, ws)
      | Inr ws1 \<Rightarrow>
          (case unlink_if_exists (audio_file env) ws1 of
             Inl e \<Rightarrow> (Inl e, ws1)
           | Inr ws2 \<Rightarrow>
               (let filename = safe_title @ lit ''.mp4'';
                    response_headers =
                      [(lit ''Content-Disposition'',
                        lit ''attachment; filename="'' @ filename @ lit ''"''),
                       (lit ''Content-Type'', lit ''video/mp4'')]
                in if list_all (\<lambda>(k, v). latin1 k \<and> latin1 v) response_headers
                   then (Inr \<lparr>content_file = output_file env, media_type = lit ''video/mp4'',
                              headers = response_headers\<rparr>,
                         ws2)
                   else (Inl (Builtin UnicodeEncodeError), ws2))))\<close>

text \<open>
  \<^verbatim>\<open>
  process = subprocess.run(ffmpeg_cmd, capture_output=True)
  if process.returncode != 0:
      raise Exception(f"FFmpeg failed: {process.stderr.decode()}")
  \<close>
\<close>

definition ffmpeg_cmd :: "env \<Rightarrow> str list" where
  "ffmpeg_cmd env =
     [lit ''ffmpeg'', lit ''-y'', lit ''-i'', path_str env (video_file env), lit ''-i'',
      path_str env (audio_file env), lit ''-c:v'', lit ''copy'', lit ''-c:a'', lit ''aac'',
      lit ''-strict'', lit ''experimental'', path_str env (output_file env)]"

definition merge_stage ::
  "env \<Rightarrow> str \<Rightarrow> workspace \<Rightarrow> (exn + StreamingResponse) \<times> workspace" where
  "merge_stage env safe_title ws =
     (case ffmpeg env (ffmpeg_cmd env) ws of
        (Inl e, ws1) \<Rightarrow> (Inl e, ws1)
      | (Inr process, ws1) \<Rightarrow>
          if returncode process \<noteq> 0
          then (case decode_utf8 env (stderr process) of
                  None \<Rightarrow> (Inl (Builtin UnicodeDecodeError), ws1)
                | Some text \<Rightarrow> (Inl (Exception (lit ''FFmpeg failed: '' @ text)), ws1))
          else deliver_stage env safe_title ws1)"

text \<open>
  The two stream downloads, the video stream first:
  \<^verbatim>\<open>
  ydl_opts_video = {
      'format': request.video_format,
      'quiet': True,
      'no_warnings': True,
      'outtmpl': str(video_file),
      'proxy': request.proxy if request.proxy else None,
      'cookiefile': cookie_file,
  }
  with yt_dlp.YoutubeDL(ydl_opts_video) as ydl:
      ydl.download([request.url])
  \<close>
\<close>

definition stream_opts :: "env \<Rightarrow> DownloadRequest \<Rightarrow> str option \<Rightarrow> str \<Rightarrow> str \<Rightarrow> ydl_opts" where
  "stream_opts env request cookie_file fmt file =
     \<lparr>opt_quiet = True, opt_no_warnings = True, opt_skip_download = False,
      opt_proxy = request_proxy request, opt_cookiefile = cookie_file, opt_logtostderr = False,
      opt_format = Some fmt, opt_outtmpl = Some (path_str env file)\<rparr>"

definition audio_stage ::
  "env \<Rightarrow> DownloadRequest \<Rightarrow> str option \<Rightarrow> str \<Rightarrow> workspace
   \<Rightarrow> (exn + StreamingResponse) \<times> workspace" where
  "audio_stage env request cookie_file safe_title ws =
     (case download env (url request)
             (stream_opts env request cookie_file (audio_format request) (audio_file env)) ws of
        (Inl e, ws1) \<Rightarrow> (Inl e, ws1)
      | (Inr u, ws1) \<Rightarrow> merge_stage env safe_title ws1)"

definition video_stage ::
  "env \<Rightarrow> DownloadRequest \<Rightarrow> str option \<Rightarrow> str \<Rightarrow> workspace
   \<Rightarrow> (exn + StreamingResponse) \<times> workspace" where
  "video_stage env request cookie_file safe_title ws =
     (case download env (url request)
             (stream_opts env request cookie_file (video_format request) (video_file env)) ws of
        (Inl e, ws1) \<Rightarrow> (Inl e, ws1)
      | (Inr u, ws1) \<Rightarrow> audio_stage env request cookie_file safe_title ws1)"

text \<open>
  The body of the \<open>try\<close>, from the metadata on:
  \<^verbatim>\<open>
  with yt_dlp.YoutubeDL(ydl_opts_info) as ydl:
      info = ydl.extract_info(request.url, download=False)
      title = sanitize_filename(info.get('title', 'video'))
  \<close>
  \<open>re.sub\<close> raises a type error when the title is \<open>None\<close>.
\<close>

definition info_opts :: "DownloadRequest \<Rightarrow> str option \<Rightarrow> ydl_opts" where
  "info_opts request cookie_file =
     \<lparr>opt_quiet = True, opt_no_warnings = True, opt_skip_download = True,
      opt_proxy = request_proxy request, opt_cookiefile = cookie_file, opt_logtostderr = False,
      opt_format = None, opt_outtmpl = None\<rparr>"

definition pipeline ::
  "env \<Rightarrow> DownloadRequest \<Rightarrow> str option \<Rightarrow> workspace \<Rightarrow> (exn + StreamingResponse) \<times> workspace" where
  "pipeline env request cookie_file ws =
     (case extract_info env (url request) (info_opts request cookie_file) ws of
        (Inl e, ws1) \<Rightarrow> (Inl e, ws1)
      | (Inr info, ws1) \<Rightarrow>
          (case get_or (i_title info) (lit ''video'') of
             None \<Rightarrow> (Inl (Builtin TypeError), ws1)
           | Some t \<Rightarrow> video_stage env request cookie_file (sanitize_filename t) ws1))"

text \<open>
  \<^verbatim>\<open>
  except Exception as e:
      # Cleanup on error
      for f in [video_file, audio_file, output_file]:
          if f.exists():
              try:
                  f.unlink()
              except:
                  pass
      raise HTTPException(status_code=500, detail=str(e))
  \<close>
\<close>

fun purge :: "str list \<Rightarrow> workspace \<Rightarrow> workspace" where
  "purge [] ws = ws"
| "purge (f # fs) ws = purge fs (if exists_path ws f then try_unlink f ws else ws)"

definition download_merged ::
  "env \<Rightarrow> DownloadRequest \<Rightarrow> workspace \<Rightarrow> StreamingResponse outcome \<times> workspace" where
  "download_merged env request ws0 =
     (case cookies_from_env env ws0 of
        (Inl e, ws1) \<Rightarrow> (Uncaught e, ws1)
      | (Inr cookie_file, ws1) \<Rightarrow>
          (case pipeline env request cookie_file ws1 of
             (Inl e, ws2) \<Rightarrow>
               (HTTPException 500 (exn_str env e),
                purge [video_file env, audio_file env, output_file env] ws2)
           | (Inr response, ws2) \<Rightarrow> (Returned response, ws2)))"

section \<open>The classification rule, in the specification's words\<close>

text \<open>
  The specification's rule for one raw record: \<open>hasVideo\<close> is "video codec present and
  not the sentinel none", \<open>hasAudio\<close> the same for the audio codec, and the record is
  video, audio, combined or dropped by the table below. A codec is present when its key
  holds a string that is not empty.
\<close>

definition hasVideo :: "raw_format \<Rightarrow> bool" where
  "hasVideo f = (case f_vcodec f of Value c \<Rightarrow> c \<noteq> [] \<and> c \<noteq> lit ''none'' | _ \<Rightarrow> False)"

definition hasAudio :: "raw_format \<Rightarrow> bool" where
  "hasAudio f = (case f_acodec f of Value c \<Rightarrow> c \<noteq> [] \<and> c \<noteq> lit ''none'' | _ \<Rightarrow> False)"

fun classification :: "bool \<Rightarrow> bool \<Rightarrow> str option" where
  "classification True False = Some (lit ''video'')"
| "classification False True = Some (lit ''audio'')"
| "classification True True = Some (lit ''combined'')"
| "classification False False = None"

text \<open>
  An entry that \<open>unlink\<close> removes: a regular file that is not locked.
\<close>

definition removable :: "entry option \<Rightarrow> bool" where
  "removable e = (case e of Some (File m c l) \<Rightarrow> \<not> l | _ \<Rightarrow> False)"

section \<open>Sample data\<close>

text \<open>
  An extraction result with a format listing: two video-only streams, an audio-only
  stream, two streams with both codecs, and a storyboard with neither.
\<close>

definition sample_format :: "string \<Rightarrow> str field \<Rightarrow> str field \<Rightarrow> int field \<Rightarrow> raw_format" where
  "sample_format fid vcodec acodec h =
     \<lparr>f_format_id = Value (lit fid), f_ext = Value (lit ''mp4''), f_vcodec = vcodec,
      f_acodec = acodec, f_width = Missing, f_height = h, f_resolution = Missing,
      f_format_note = Missing, f_tbr = Missing, f_filesize = Null\<rparr>"

definition sample_listing :: "raw_format list" where
  "sample_listing =
     [sample_format ''136'' (Value (lit ''avc1'')) (Value (lit ''none'')) (Value 720),
      sample_format ''sb0'' (Value (lit ''none'')) (Value (lit ''none'')) (Value 90),
      sample_format ''137'' (Value (lit ''avc1'')) Missing (Value 1080),
      sample_format ''140'' (Value (lit ''none'')) (Value (lit ''mp4a'')) Null,
      sample_format ''18'' (Value (lit ''avc1'')) (Value (lit ''mp4a'')) (Value 480),
      sample_format ''22'' (Value (lit ''avc1'')) (Value (lit ''mp4a'')) (Value 720)]"

definition sample_info :: info_dict where
  "sample_info =
     \<lparr>i_title = Value (lit ''My:Video/Title*''), i_thumbnail = Missing, i_thumbnails = Missing,
      i_formats = Value sample_listing, i_url = Missing, i_ext = Missing, i_width = Missing,
      i_height = Missing, i_filesize = Missing\<rparr>"

definition sample_descriptor :: "string \<Rightarrow> string \<Rightarrow> string \<Rightarrow> int \<Rightarrow> FormatInfo" where
  "sample_descriptor fid res label h =
     \<lparr>format_id = lit fid, ext = lit ''mp4'', resolution = lit res, note' = [], type = lit label,
      filesize = None, height = h\<rparr>"

definition sample_unsorted :: "FormatInfo list" where
  "sample_unsorted =
     [sample_descriptor ''136'' ''?x720'' ''video'' 720,
      sample_descriptor ''137'' ''?x1080'' ''video'' 1080,
      sample_descriptor ''140'' ''?x0'' ''audio'' 0,
      sample_descriptor ''18'' ''?x480'' ''combined'' 480,
      sample_descriptor ''22'' ''?x720'' ''combined'' 720]"

definition sample_catalog :: FormatsResponse where
  "sample_catalog =
     \<lparr>status = lit ''success'', title = lit ''My:Video/Title*'', thumbnail = [],
      formats =
        [sample_descriptor ''137'' ''?x1080'' ''video'' 1080,
         sample_descriptor ''136'' ''?x720'' ''video'' 720,
         sample_descriptor ''22'' ''?x720'' ''combined'' 720,
         sample_descriptor ''18'' ''?x480'' ''combined'' 480,
         sample_descriptor ''140'' ''?x0'' ''audio'' 0]\<rparr>"

text \<open>
  An extraction result without a format listing that exposes a direct URL, with a height
  and without a width.
\<close>

definition direct_info :: info_dict where
  "direct_info =
     \<lparr>i_title = Value (lit ''Clip''), i_thumbnail = Missing, i_thumbnails = Missing,
      i_formats = Missing, i_url = Value (lit ''https://cdn.example/clip.mp4''),
      i_ext = Missing, i_width = Missing, i_height = Value 720, i_filesize = Missing\<rparr>"

definition direct_catalog :: FormatsResponse where
  "direct_catalog =
     \<lparr>status = lit ''success'', title = lit ''Clip'', thumbnail = [],
      formats =
        [\<lparr>format_id = lit ''default'', ext = lit ''mp4'', resolution = lit ''?x720'',
          note' = lit ''Default Source'', type = lit ''combined'', filesize = None,
          height = 720\<rparr>]\<rparr>"

text \<open>
  A download request and its environment: no cookies, an engine that resolves the URL
  to \<open>sample_info\<close> and writes three bytes for a stream, and a combiner that writes an
  output of one MiB and one byte. The collaborators find the name of their output in
  the workspace by dropping the directory \<open>/tmp/anystreampro/\<close> from the path. The
  codecs are those of ASCII text, on which UTF-8 agrees with them.
\<close>

definition sample_request :: DownloadRequest where
  "sample_request =
     \<lparr>url = lit ''https://video.example/watch?v=1'', proxy = None,
      video_format = lit ''137'', audio_format = lit ''140''\<rparr>"

definition sample_output :: "byte list" where
  "sample_output = replicate 1048577 7"

definition ascii_encode :: "str \<Rightarrow> byte list option" where
  "ascii_encode s = (if list_all (\<lambda>c. c < 128) s then Some (map of_nat s) else None)"

definition ascii_decode :: "byte list \<Rightarrow> str option" where
  "ascii_decode bs = (if list_all (\<lambda>b. b < 128) bs then Some (map unat bs) else None)"

definition sample_download :: "str \<Rightarrow> ydl_opts \<Rightarrow> workspace \<Rightarrow> (exn + unit) \<times> workspace" where
  "sample_download u opts ws =
     (case opt_outtmpl opts of
        None \<Rightarrow> (Inl (Exception (lit ''no output template'')), ws)
      | Some path \<Rightarrow> (Inr (), AList.update (drop 18 path) (File 10000 [1, 2, 3] False) ws))"

definition sample_ffmpeg :: "str list \<Rightarrow> workspace \<Rightarrow> (exn + completed_process) \<times> workspace" where
  "sample_ffmpeg cmd ws =
     (Inr \<lparr>returncode = 0, stderr = []\<rparr>,
      AList.update (drop 18 (last cmd)) (File 10000 sample_output False) ws)"

definition sample_env :: env where
  "sample_env =
     \<lparr>now = 10000, COOKIES_CONTENT = None, local_cookies = False,
      TEMP_DIR = lit ''/tmp/anystreampro'',
      uuid4 = lit ''3f2a9c1e-7b4d-4e8a-9c3f-1a2b3c4d5e6f'',
      encode_utf8 = ascii_encode, decode_utf8 = ascii_decode,
      describe_error = (\<lambda>b. lit ''error''),
      extract_info = (\<lambda>u opts ws. (Inr sample_info, ws)),
      download = sample_download, ffmpeg = sample_ffmpeg\<rparr>"

definition sample_delivery :: StreamingResponse where
  \<open>sample_delivery =
     \<lparr>content_file = lit ''3f2a9c1e_merged.mp4'', media_type = lit ''video/mp4'',
      headers =
        [(lit ''Content-Disposition'', lit ''attachment; filename="MyVideoTitle.mp4"''),
         (lit ''Content-Type'', lit ''video/mp4'')]\<rparr>\<close>

text \<open>
  A combiner that exits with status 2 and the error text \<open>invalid data found\<close>, after
  writing part of its output.
\<close>

definition failing_ffmpeg :: "str list \<Rightarrow> workspace \<Rightarrow> (exn + completed_process) \<times> workspace" where
  "failing_ffmpeg cmd ws =
     (Inr \<lparr>returncode = 2, stderr = map of_nat (lit ''invalid data found'')\<rparr>,
      AList.update (drop 18 (last cmd)) (File 10000 [7] False) ws)"

text \<open>
  An engine that leaves the video file locked (it cannot be unlinked) and fails on the
  audio stream.
\<close>

definition locking_download :: "str \<Rightarrow> ydl_opts \<Rightarrow> workspace \<Rightarrow> (exn + unit) \<times> workspace" where
  "locking_download u opts ws =
     (if opt_format opts = Some (lit ''137'')
      then (Inr (), AList.update (lit ''3f2a9c1e_video.mp4'') (File 10000 [1, 2, 3] True) ws)
      else (Inl (Exception (lit ''audio stream unavailable'')), ws))"

text \<open>A workspace that holds one file, 10000 seconds old.\<close>

definition stale_workspace :: workspace where
  "stale_workspace = [(lit ''0badcafe_merged.mp4'', File 0 [9] False)]"

definition sample_url_request :: URLRequest where
  "sample_url_request = \<lparr>url = lit ''https://video.example/watch?v=1'', proxy = None\<rparr>"

text \<open>An engine whose metadata carries no title.\<close>

definition untitled_info :: info_dict where
  "untitled_info = sample_info\<lparr>i_title := Missing\<rparr>"

section \<open>Properties of the title sanitizer\<close>

lemma invalid_chars_codes: "invalid_chars = [60, 62, 58, 34, 47, 92, 124, 63, 42]"
  by (simp add: invalid_chars_def lit_def)

lemma filter_take_filter: "filter P (take n (filter P xs)) = take n (filter P xs)"
proof -
  have "\<forall>x \<in> set (take n (filter P xs)). P x"
    by (auto dest: in_set_takeD)
  then show ?thesis
    by (simp only: filter_True)
qed

text \<open>
  C6. For every input string the sanitizer's result contains none of the nine characters
  \<open>< > : " / \ | ? *\<close>, has at most 200 characters, and every character of it is a
  character of the input.
\<close>

theorem sanitize_filename_clean:
  "set (sanitize_filename s) \<inter> set (lit ''<>:/|?*'' @ [of_char (CHR 0x22), of_char (CHR 0x5C)]) = {}
   \<and> length (sanitize_filename s) \<le> 200
   \<and> set (sanitize_filename s) \<subseteq> set s"
proof -
  have "set (take 200 (filter (\<lambda>c. c \<notin> set invalid_chars) s)) \<subseteq> set (filter (\<lambda>c. c \<notin> set invalid_chars) s)"
    by (rule set_take_subset)
  then have sub: "set (sanitize_filename s) \<subseteq> {c \<in> set s. c \<notin> set invalid_chars}"
    by (simp add: sanitize_filename_def)
  have same: "set (lit ''<>:/|?*'' @ [of_char (CHR 0x22), of_char (CHR 0x5C)]) = set invalid_chars"
    by (auto simp: invalid_chars_codes lit_def)
  have "set (sanitize_filename s) \<inter> set invalid_chars = {}"
    using sub by blast
  moreover have "length (sanitize_filename s) \<le> 200"
    by (simp add: sanitize_filename_def)
  moreover have "set (sanitize_filename s) \<subseteq> set s"
    using sub by blast
  ultimately show ?thesis
    by (simp only: same simp_thms)
qed

text \<open>
  C8. The sanitizer is idempotent: sanitizing a sanitized string changes nothing.
\<close>

theorem sanitize_filename_idempotent:
  "sanitize_filename (sanitize_filename s) = sanitize_filename s"
proof -
  let ?keep = "\<lambda>c. c \<notin> set invalid_chars"
  have "take 200 (filter ?keep (take 200 (filter ?keep s))) = take 200 (take 200 (filter ?keep s))"
    by (simp only: filter_take_filter)
  also have "\<dots> = take 200 (filter ?keep s)"
    by simp
  finally show ?thesis
    by (simp only: sanitize_filename_def)
qed

section \<open>Properties of the result streamer\<close>

lemma concat_read_loop: "concat (read_loop bs) = bs"
proof (induction bs rule: read_loop.induct)
  case (1 rest)
  show ?case
  proof (cases "take chunk_size rest = []")
    case True
    then have "rest = []" by (simp add: chunk_size_def)
    then show ?thesis by (simp add: read_loop.simps[of "[]"])
  next
    case False
    with 1 have "concat (read_loop (drop chunk_size rest)) = drop chunk_size rest" by simp
    with False show ?thesis
      by (subst read_loop.simps) (simp add: Let_def)
  qed
qed

lemma read_loop_chunks: "c \<in> set (read_loop bs) \<Longrightarrow> c \<noteq> [] \<and> length c \<le> chunk_size"
proof (induction bs rule: read_loop.induct)
  case (1 rest)
  show ?case
  proof (cases "take chunk_size rest = []")
    case True
    with 1(2) show ?thesis by (subst (asm) read_loop.simps) (simp add: Let_def)
  next
    case False
    with 1(2) have "c = take chunk_size rest \<or> c \<in> set (read_loop (drop chunk_size rest))"
      by (subst (asm) read_loop.simps) (simp add: Let_def)
    with 1(1) False show ?thesis by auto
  qed
qed

lemma read_loop_full: "c \<in> set (butlast (read_loop bs)) \<Longrightarrow> length c = chunk_size"
proof (induction bs rule: read_loop.induct)
  case (1 rest)
  show ?case
  proof (cases "take chunk_size rest = []")
    case True
    with 1(2) show ?thesis by (subst (asm) read_loop.simps) (simp add: Let_def)
  next
    case False
    let ?tl = "read_loop (drop chunk_size rest)"
    have unf: "read_loop rest = take chunk_size rest # ?tl"
      using False by (subst read_loop.simps) (simp add: Let_def)
    show ?thesis
    proof (cases "?tl = []")
      case True
      with 1(2) unf show ?thesis by simp
    next
      case nonempty: False
      then have "drop chunk_size rest \<noteq> []"
        by (auto simp: read_loop.simps[of "[]"])
      then have "length (take chunk_size rest) = chunk_size" by simp
      moreover from 1(2) unf nonempty have "c = take chunk_size rest \<or> c \<in> set (butlast ?tl)"
        by simp
      ultimately show ?thesis using 1(1) False by auto
    qed
  qed
qed

lemma read_loop_Nil: "read_loop [] = []"
  by (simp add: read_loop.simps[of "[]"])

lemma read_loop_Cons:
  "rest \<noteq> [] \<Longrightarrow> read_loop rest = take chunk_size rest # read_loop (drop chunk_size rest)"
  by (subst read_loop.simps) (simp add: Let_def chunk_size_def)

lemma read_loop_length: "length (read_loop bs) \<le> length bs"
proof (induction bs rule: read_loop.induct)
  case (1 rest)
  show ?case
  proof (cases "rest = []")
    case True
    then show ?thesis by (simp add: read_loop_Nil)
  next
    case False
    then have step: "take chunk_size rest \<noteq> []" by (simp add: chunk_size_def)
    have "length (read_loop (drop chunk_size rest)) \<le> length rest - chunk_size"
      using 1 [OF refl step] by simp
    moreover have "0 < chunk_size" by (simp add: chunk_size_def)
    moreover have "0 < length rest" using False by simp
    ultimately have "Suc (length (read_loop (drop chunk_size rest))) \<le> length rest"
      by linarith
    then show ?thesis
      by (simp add: read_loop_Cons [OF False])
  qed
qed

lemma loop_step_read_loop:
  "loop_step out rest ws =
     (case read_loop rest of
        [] \<Rightarrow> (StopIteration, Finished, try_unlink out ws)
      | chunk # chunks \<Rightarrow> (Yield chunk, Suspended (drop chunk_size rest), ws))"
proof (cases "rest = []")
  case True
  then show ?thesis by (simp add: loop_step_def read_loop_Nil)
next
  case False
  then have "take chunk_size rest \<noteq> []" by (simp add: chunk_size_def)
  then show ?thesis by (simp add: loop_step_def read_loop_Cons [OF False] Let_def)
qed

lemma deliver_suspended:
  "length (read_loop rest) < n \<Longrightarrow>
   deliver n out (Suspended rest) ws = (read_loop rest, Finished, try_unlink out ws)"
proof (induction n arbitrary: rest)
  case 0
  then show ?case by simp
next
  case (Suc n)
  show ?case
  proof (cases "rest = []")
    case True
    then show ?thesis by (simp add: loop_step_read_loop read_loop_Nil)
  next
    case False
    from Suc.prems have "length (read_loop (drop chunk_size rest)) < n"
      by (simp add: read_loop_Cons [OF False])
    then have "deliver n out (Suspended (drop chunk_size rest)) ws =
        (read_loop (drop chunk_size rest), Finished, try_unlink out ws)"
      by (rule Suc.IH)
    then show ?thesis
      by (simp add: loop_step_read_loop read_loop_Cons [OF False])
  qed
qed

lemma deliver_created:
  assumes "open_rb out ws = Inr bytes" and "length (read_loop bytes) < n"
  shows "deliver n out Created ws = (read_loop bytes, Finished, try_unlink out ws)"
proof -
  from assms(2) obtain k where n: "n = Suc k" by (cases n) auto
  have "deliver (Suc k) out Created ws = deliver (Suc k) out (Suspended bytes) ws"
    using assms(1) by simp
  with deliver_suspended [OF assms(2)] n show ?thesis by simp
qed

lemma deliver_partial:
  "n \<le> length (read_loop rest) \<Longrightarrow>
   deliver n out (Suspended rest) ws =
     (take n (read_loop rest), Suspended (concat (drop n (read_loop rest))), ws)"
proof (induction n arbitrary: rest)
  case 0
  then show ?case by (simp add: concat_read_loop)
next
  case (Suc n)
  then have ne: "rest \<noteq> []" by (auto simp: read_loop_Nil)
  from Suc.prems have "n \<le> length (read_loop (drop chunk_size rest))"
    by (simp add: read_loop_Cons [OF ne])
  then have "deliver n out (Suspended (drop chunk_size rest)) ws =
      (take n (read_loop (drop chunk_size rest)),
       Suspended (concat (drop n (read_loop (drop chunk_size rest)))), ws)"
    by (rule Suc.IH)
  then show ?case
    by (simp add: loop_step_read_loop read_loop_Cons [OF ne])
qed

text \<open>
  C9. For every output file, a delivery that is not cut short (one request more than
  the file has bytes is always enough) ends with the generator finished, and the chunks
  it sent concatenate to the file's bytes; every chunk is non-empty and of at most
  1048576 bytes, and every chunk but the last has exactly 1048576 bytes.
\<close>

theorem file_iterator_chunks:
  assumes "map_of ws out = Some (File m bytes l)"
    and "length bytes < n"
    and "deliver n out Created ws = (chunks, g, ws')"
  shows "g = Finished \<and> concat chunks = bytes
    \<and> (\<forall>c \<in> set chunks. c \<noteq> [] \<and> length c \<le> 1048576)
    \<and> (\<forall>c \<in> set (butlast chunks). length c = 1048576)"
proof -
  have opened: "open_rb out ws = Inr bytes"
    using assms(1) by (simp add: open_rb_def)
  have "length (read_loop bytes) < n"
    using read_loop_length [of bytes] assms(2) by simp
  from deliver_created [OF opened this] assms(3)
  have chunks: "chunks = read_loop bytes" and "g = Finished" by simp_all
  have size: "chunk_size = 1048576" by (simp add: chunk_size_def)
  show ?thesis
    using \<open>g = Finished\<close> concat_read_loop [of bytes] read_loop_chunks [of _ bytes]
      read_loop_full [of _ bytes]
    by (auto simp: chunks size)
qed

theorem file_iterator_chunks_witness:
  "map_of [(lit ''a_merged.mp4'', File 0 (replicate 1048577 7) False)] (lit ''a_merged.mp4'')
     = Some (File 0 (replicate 1048577 7) False)
   \<and> length (replicate 1048577 (7::byte)) < 1048578
   \<and> deliver 1048578 (lit ''a_merged.mp4'') Created
        [(lit ''a_merged.mp4'', File 0 (replicate 1048577 7) False)]
       = ([replicate 1048576 7, [7]], Finished, [])
   \<and> concat [replicate 1048576 7, [7::byte]] = replicate 1048577 7
   \<and> list_all (\<lambda>c. c \<noteq> [] \<and> length c \<le> 1048576) [replicate 1048576 7, [7::byte]]
   \<and> list_all (\<lambda>c. length c = 1048576) (butlast [replicate 1048576 7, [7::byte]])"
proof -
  let ?out = "lit ''a_merged.mp4''"
  let ?ws = "[(?out, File 0 (replicate 1048577 (7::byte)) False)]"
  have h1: "map_of ?ws ?out = Some (File 0 (replicate 1048577 7) False)" by simp
  have h2: "length (replicate 1048577 (7::byte)) < 1048578" by simp
  have opened: "open_rb ?out ?ws = Inr (replicate 1048577 7)" by (simp add: open_rb_def)
  have two: "read_loop (replicate 1048577 (7::byte)) = [replicate 1048576 7, [7]]"
    by (simp add: read_loop_Cons read_loop_Nil chunk_size_def)
  have "deliver 1048578 ?out Created ?ws
      = (read_loop (replicate 1048577 7), Finished, try_unlink ?out ?ws)"
    by (rule deliver_created [OF opened]) (simp add: two)
  then have h3: "deliver 1048578 ?out Created ?ws = ([replicate 1048576 7, [7]], Finished, [])"
    by (simp add: two try_unlink_def unlink_def AList.delete_eq)
  from file_iterator_chunks [OF h1 h2 h3] h1 h2 h3 show ?thesis
    unfolding list_all_iff by blast
qed

section \<open>Properties of the format catalog\<close>

lemma sort_formats_sorted: "sorted_wrt (\<lambda>a b. height b \<le> height a) (sort_formats fs)"
proof -
  have "sorted (map height (sort_key height (rev fs)))"
    by (rule sorted_sort_key)
  then have "sorted_wrt (\<lambda>a b. height a \<le> height b) (sort_key height (rev fs))"
    by (simp only: sorted_map)
  then show ?thesis
    by (simp only: sort_formats_def sorted_wrt_rev)
qed

lemma sort_formats_mset: "mset (sort_formats fs) = mset fs"
  by (simp add: sort_formats_def)

lemma sort_formats_stable:
  "filter (\<lambda>d. height d = h) (sort_formats fs) = filter (\<lambda>d. height d = h) fs"
proof -
  have "filter (\<lambda>d. height d = h) (sort_formats fs)
      = rev (filter (\<lambda>d. height d = h) (sort_key height (rev fs)))"
    by (simp only: sort_formats_def rev_filter)
  also have "\<dots> = rev (filter (\<lambda>d. height d = h) (rev fs))"
    by (simp only: sort_key_stable)
  also have "\<dots> = filter (\<lambda>d. height d = h) fs"
    by (simp only: rev_filter rev_rev_ident)
  finally show ?thesis .
qed

lemma has_video_hasVideo: "has_video f = hasVideo f"
  by (simp add: has_video_def hasVideo_def get_def truthy_seq_def split: field.splits)

lemma has_audio_hasAudio: "has_audio f = hasAudio f"
  by (simp add: has_audio_def hasAudio_def get_def truthy_seq_def split: field.splits)

lemma type_label_classification: "type_label f = classification (hasVideo f) (hasAudio f)"
  by (cases "hasVideo f"; cases "hasAudio f")
    (simp_all add: type_label_def has_video_hasVideo has_audio_hasAudio)

lemma describe_format_type:
  "describe_format f = Inr (Some d) \<Longrightarrow> Some (type d) = type_label f"
  by (auto simp: describe_format_def FormatInfo_init_def
      split: option.splits field.splits sum.splits)

lemma describe_format_skip:
  "describe_format f = Inr None \<Longrightarrow> type_label f = None"
  by (auto simp: describe_format_def FormatInfo_init_def
      split: option.splits field.splits sum.splits)

lemma type_label_None: "type_label f = None \<longleftrightarrow> \<not> (hasVideo f \<or> hasAudio f)"
  by (cases "hasVideo f"; cases "hasAudio f") (simp_all add: type_label_classification)

lemma collect_formats_classified:
  "collect_formats raw acc = Inr ds \<Longrightarrow>
   \<exists>new. ds = acc @ new
     \<and> list_all2 (\<lambda>f d. describe_format f = Inr (Some d)
            \<and> Some (type d) = classification (hasVideo f) (hasAudio f))
          (filter (\<lambda>f. hasVideo f \<or> hasAudio f) raw) new"
proof (induction raw arbitrary: acc)
  case Nil
  then show ?case by simp
next
  case (Cons f raw)
  show ?case
  proof (cases "describe_format f")
    case (Inl e)
    with Cons.prems show ?thesis by simp
  next
    case (Inr r)
    show ?thesis
    proof (cases r)
      case None
      with Inr have skip: "\<not> (hasVideo f \<or> hasAudio f)"
        using describe_format_skip type_label_None by blast
      from Cons.prems Inr None have "collect_formats raw acc = Inr ds" by simp
      from Cons.IH [OF this] skip show ?thesis by simp
    next
      case (Some d)
      with Inr have label: "Some (type d) = classification (hasVideo f) (hasAudio f)"
        using describe_format_type type_label_classification by metis
      then have keep: "hasVideo f \<or> hasAudio f"
        by (cases "hasVideo f"; cases "hasAudio f") simp_all
      from Cons.prems Inr Some have "collect_formats raw (acc @ [d]) = Inr ds" by simp
      from Cons.IH [OF this] obtain new where
        "ds = (acc @ [d]) @ new"
        "list_all2 (\<lambda>f d. describe_format f = Inr (Some d)
            \<and> Some (type d) = classification (hasVideo f) (hasAudio f))
           (filter (\<lambda>f. hasVideo f \<or> hasAudio f) raw) new"
        by blast
      with label keep Inr Some show ?thesis by simp
    qed
  qed
qed

lemma formats_response_formats:
  "formats_response info = Inr response \<Longrightarrow>
   \<exists>unsorted. unsorted_formats info = Inr unsorted \<and> formats response = sort_formats unsorted"
  by (auto simp: formats_response_def FormatsResponse_init_def Let_def
      split: sum.splits option.splits)

lemma sort_formats_single: "sort_formats [d] = [d]"
  by (simp add: sort_formats_def)

lemma synthetic_format_ok:
  assumes "i_ext info \<noteq> Null" and "i_height info \<noteq> Null"
  shows "synthetic_format info =
    Inr \<lparr>format_id = lit ''default'',
          ext = (case i_ext info of Value e \<Rightarrow> e | _ \<Rightarrow> lit ''mp4''),
          resolution = format_or show_int (i_width info) (lit ''?'') @ lit ''x''
                       @ format_or show_int (i_height info) (lit ''?''),
          note' = lit ''Default Source'', type = lit ''combined'',
          filesize = get (i_filesize info),
          height = (case i_height info of Value h \<Rightarrow> h | _ \<Rightarrow> 0)\<rparr>"
proof -
  obtain e where e: "get_or (i_ext info) (lit ''mp4'') = Some e"
    "e = (case i_ext info of Value e \<Rightarrow> e | _ \<Rightarrow> lit ''mp4'')"
    using assms(1) by (cases "i_ext info") (simp_all add: get_or_def)
  obtain h where h: "get_or (i_height info) 0 = Some h"
    "h = (case i_height info of Value h \<Rightarrow> h | _ \<Rightarrow> 0)"
    using assms(2) by (cases "i_height info") (simp_all add: get_or_def)
  show ?thesis
    unfolding synthetic_format_def FormatInfo_init_def e(1) h(1)
    by (simp add: e(2) h(2))
qed


lemma fallback_formats_single:
  assumes "get_or (i_formats info) [] = Some []" and "i_url info = Value u" and "u \<noteq> []"
    and "synthetic_format info = Inr d"
  shows "unsorted_formats info = Inr [d]"
proof -
  have "truthy_seq (get (i_url info))"
    using assms(2,3) by (simp add: truthy_seq_def get_def)
  moreover have "\<not> truthy_seq (get_or (i_formats info) [])"
    by (simp add: assms(1) truthy_seq_def)
  ultimately have "fallback_formats info = Inr [d]"
    by (simp add: fallback_formats_def assms(4) Let_def)
  then show ?thesis
    by (simp add: unsorted_formats_def assms(1))
qed

lemma formats_response_of_unsorted:
  assumes "unsorted_formats info = Inr ds" and "i_title info \<noteq> Null"
  shows "\<exists>response. formats_response info = Inr response \<and> formats response = sort_formats ds"
proof -
  obtain t where t: "get_or (i_title info) (lit ''Unknown Title'') = Some t"
    using assms(2) by (cases "i_title info") (simp_all add: get_or_def)
  have "formats_response info =
      FormatsResponse_init (Some (lit ''success'')) (Some t)
        (Some (if truthy_seq (select_thumbnail info) then the (select_thumbnail info) else []))
        (sort_formats ds)"
    unfolding formats_response_def Let_def t assms(1) by simp
  then show ?thesis
    by (simp add: FormatsResponse_init_def)
qed


text \<open>
  C3. For every sequence of raw format records, the list the code sorts into the
  catalog is the fallback (empty when there are records) followed by one descriptor for
  each record that has a video or an audio codec, in the order of the records: the
  descriptor the loop builds from that record. Its type is the one the specification's
  table gives for (\<open>hasVideo\<close>, \<open>hasAudio\<close>) of the record: video-only records are
  video, audio-only records audio, records with both combined; records with neither
  have no descriptor.
\<close>

theorem catalog_classification:
  assumes "i_formats info = Value raw" and "formats_response info = Inr response"
  shows "\<exists>fallback new. fallback_formats info = Inr fallback
    \<and> (raw \<noteq> [] \<longrightarrow> fallback = [])
    \<and> unsorted_formats info = Inr (fallback @ new)
    \<and> formats response = sort_formats (fallback @ new)
    \<and> list_all2 (\<lambda>f d. describe_format f = Inr (Some d)
            \<and> Some (type d) = classification (hasVideo f) (hasAudio f))
         (filter (\<lambda>f. hasVideo f \<or> hasAudio f) raw) new"
proof -
  from formats_response_formats [OF assms(2)] obtain unsorted where
    u: "unsorted_formats info = Inr unsorted" and s: "formats response = sort_formats unsorted"
    by blast
  from u assms(1) obtain fallback where
    f: "fallback_formats info = Inr fallback" and c: "collect_formats raw fallback = Inr unsorted"
    by (auto simp: unsorted_formats_def get_or_def split: sum.splits)
  have e: "raw \<noteq> [] \<longrightarrow> fallback = []"
    using f assms(1)
    by (auto simp: fallback_formats_def get_or_def truthy_seq_def Let_def split: if_splits)
  from collect_formats_classified [OF c] obtain new where
    n: "unsorted = fallback @ new"
    and l: "list_all2 (\<lambda>f d. describe_format f = Inr (Some d)
            \<and> Some (type d) = classification (hasVideo f) (hasAudio f))
         (filter (\<lambda>f. hasVideo f \<or> hasAudio f) raw) new"
    by blast
  show ?thesis
  proof (intro exI conjI)
    show "fallback_formats info = Inr fallback" by (rule f)
    show "raw \<noteq> [] \<longrightarrow> fallback = []" by (rule e)
    show "unsorted_formats info = Inr (fallback @ new)" using u n by simp
    show "formats response = sort_formats (fallback @ new)" using s n by simp
    show "list_all2 (\<lambda>f d. describe_format f = Inr (Some d)
            \<and> Some (type d) = classification (hasVideo f) (hasAudio f))
         (filter (\<lambda>f. hasVideo f \<or> hasAudio f) raw) new" by (rule l)
  qed
qed

theorem catalog_classification_witness:
  "i_formats sample_info = Value sample_listing
   \<and> formats_response sample_info = Inr sample_catalog
   \<and> map (\<lambda>d. (format_id d, type d)) (formats sample_catalog)
       = [(lit ''137'', lit ''video''), (lit ''136'', lit ''video''),
          (lit ''22'', lit ''combined''), (lit ''18'', lit ''combined''),
          (lit ''140'', lit ''audio'')]
   \<and> (\<exists>fallback new. fallback_formats sample_info = Inr fallback
        \<and> (sample_listing \<noteq> [] \<longrightarrow> fallback = [])
        \<and> unsorted_formats sample_info = Inr (fallback @ new)
        \<and> formats sample_catalog = sort_formats (fallback @ new)
        \<and> list_all2 (\<lambda>f d. describe_format f = Inr (Some d)
            \<and> Some (type d) = classification (hasVideo f) (hasAudio f))
             (filter (\<lambda>f. hasVideo f \<or> hasAudio f) sample_listing) new)"
proof -
  have h1: "i_formats sample_info = Value sample_listing"
    by (simp add: sample_info_def)
  have h2: "formats_response sample_info = Inr sample_catalog"
    by code_simp
  have types: "map (\<lambda>d. (format_id d, type d)) (formats sample_catalog)
       = [(lit ''137'', lit ''video''), (lit ''136'', lit ''video''),
          (lit ''22'', lit ''combined''), (lit ''18'', lit ''combined''),
          (lit ''140'', lit ''audio'')]"
    by (simp add: sample_catalog_def sample_descriptor_def)
  show ?thesis
    by (intro conjI h1 h2 types catalog_classification [OF h1 h2])
qed

text \<open>
  C4. The catalog is sorted by height, descending, and the sort is stable: it is a
  rearrangement of the descriptors collected, and the descriptors of any one height are
  in the order in which they were collected.
\<close>

theorem catalog_sorted:
  assumes "formats_response info = Inr response" and "unsorted_formats info = Inr unsorted"
  shows "sorted_wrt (\<lambda>a b. height a \<ge> height b) (formats response)
    \<and> mset (formats response) = mset unsorted
    \<and> (\<forall>h. filter (\<lambda>d. height d = h) (formats response) = filter (\<lambda>d. height d = h) unsorted)"
proof -
  from formats_response_formats [OF assms(1)] assms(2)
  have "formats response = sort_formats unsorted" by simp
  then show ?thesis
    by (simp only: sort_formats_sorted sort_formats_mset sort_formats_stable simp_thms)
qed


theorem catalog_sorted_witness:
  "formats_response sample_info = Inr sample_catalog
   \<and> unsorted_formats sample_info = Inr sample_unsorted
   \<and> map height sample_unsorted = [720, 1080, 0, 480, 720]
   \<and> map height (formats sample_catalog) = [1080, 720, 720, 480, 0]
   \<and> map format_id (filter (\<lambda>d. height d = 720) sample_unsorted) = [lit ''136'', lit ''22'']
   \<and> map format_id (filter (\<lambda>d. height d = 720) (formats sample_catalog)) = [lit ''136'', lit ''22'']
   \<and> sorted_wrt (\<lambda>a b. height a \<ge> height b) (formats sample_catalog)
   \<and> mset (formats sample_catalog) = mset sample_unsorted"
proof -
  have h1: "formats_response sample_info = Inr sample_catalog"
    by code_simp
  have h2: "unsorted_formats sample_info = Inr sample_unsorted"
    by code_simp
  have before: "map height sample_unsorted = [720, 1080, 0, 480, 720]"
    by (simp add: sample_unsorted_def sample_descriptor_def)
  have after: "map height (formats sample_catalog) = [1080, 720, 720, 480, 0]"
    by (simp add: sample_catalog_def sample_descriptor_def)
  have ties: "map format_id (filter (\<lambda>d. height d = 720) sample_unsorted) = [lit ''136'', lit ''22'']"
    by (simp add: sample_unsorted_def sample_descriptor_def)
  from catalog_sorted [OF h1 h2]
  have sorted: "sorted_wrt (\<lambda>a b. height a \<ge> height b) (formats sample_catalog)"
    and perm: "mset (formats sample_catalog) = mset sample_unsorted"
    and stable: "filter (\<lambda>d. height d = 720) (formats sample_catalog)
      = filter (\<lambda>d. height d = 720) sample_unsorted"
    by blast+
  from stable ties
  have "map format_id (filter (\<lambda>d. height d = 720) (formats sample_catalog)) = [lit ''136'', lit ''22'']"
    by simp
  then have ties': "map format_id (filter (\<lambda>d. height d = 720) (formats sample_catalog))
      = [lit ''136'', lit ''22'']" .
  show ?thesis
    by (intro conjI h1 h2 before after ties ties' sorted perm)
qed

text \<open>
  C7, as the code has it. For every extraction result with no format listing (the key
  \<open>formats\<close> missing, or an empty list) that exposes a direct URL, and whose title, ext
  and height are not \<open>None\<close>, the catalog is exactly one descriptor of type combined,
  built from the ext, width, height and filesize that are present. Its resolution is
  width, \<open>x\<close>, height, where a missing width is written \<open>?\<close> and a missing height is
  written \<open>?\<close>, each on its own: \<open>?x?\<close> when both are missing.
\<close>

theorem fallback_descriptor:
  assumes "i_formats info = Missing \<or> i_formats info = Value []"
    and "i_url info = Value u" and "u \<noteq> []"
    and "i_title info \<noteq> Null" and "i_ext info \<noteq> Null" and "i_height info \<noteq> Null"
  shows "\<exists>response. formats_response info = Inr response
    \<and> formats response =
        [\<lparr>format_id = lit ''default'',
          ext = (case i_ext info of Value e \<Rightarrow> e | _ \<Rightarrow> lit ''mp4''),
          resolution = format_or show_int (i_width info) (lit ''?'') @ lit ''x''
                       @ format_or show_int (i_height info) (lit ''?''),
          note' = lit ''Default Source'', type = lit ''combined'',
          filesize = get (i_filesize info),
          height = (case i_height info of Value h \<Rightarrow> h | _ \<Rightarrow> 0)\<rparr>]
    \<and> (i_width info = Missing \<and> i_height info = Missing
         \<longrightarrow> map resolution (formats response) = [lit ''?x?''])"
proof -
  define d where "d = \<lparr>format_id = lit ''default'',
          ext = (case i_ext info of Value e \<Rightarrow> e | _ \<Rightarrow> lit ''mp4''),
          resolution = format_or show_int (i_width info) (lit ''?'') @ lit ''x''
                       @ format_or show_int (i_height info) (lit ''?''),
          note' = lit ''Default Source'', type = lit ''combined'',
          filesize = get (i_filesize info),
          height = (case i_height info of Value h \<Rightarrow> h | _ \<Rightarrow> 0)\<rparr>"
  have synth: "synthetic_format info = Inr d"
    unfolding d_def by (rule synthetic_format_ok [OF assms(5,6)])
  have raw: "get_or (i_formats info) [] = Some []"
    using assms(1) by (auto simp: get_or_def)
  from formats_response_of_unsorted [OF fallback_formats_single [OF raw assms(2,3) synth] assms(4)]
  obtain response where r: "formats_response info = Inr response" "formats response = [d]"
    by (auto simp: sort_formats_single)
  have res: "resolution d = format_or show_int (i_width info) (lit ''?'') @ lit ''x''
                       @ format_or show_int (i_height info) (lit ''?'')"
    by (simp add: d_def)
  have both: "i_width info = Missing \<and> i_height info = Missing
      \<longrightarrow> map resolution (formats response) = [lit ''?x?'']"
    by (simp add: r(2) res format_or_def lit_def)
  show ?thesis
  proof (intro exI conjI)
    show "formats_response info = Inr response"
      by (rule r(1))
    show "formats response =
        [\<lparr>format_id = lit ''default'',
          ext = (case i_ext info of Value e \<Rightarrow> e | _ \<Rightarrow> lit ''mp4''),
          resolution = format_or show_int (i_width info) (lit ''?'') @ lit ''x''
                       @ format_or show_int (i_height info) (lit ''?''),
          note' = lit ''Default Source'', type = lit ''combined'',
          filesize = get (i_filesize info),
          height = (case i_height info of Value h \<Rightarrow> h | _ \<Rightarrow> 0)\<rparr>]"
      using r(2) by (simp only: d_def)
    show "i_width info = Missing \<and> i_height info = Missing
        \<longrightarrow> map resolution (formats response) = [lit ''?x?'']"
      by (rule both)
  qed
qed


theorem fallback_descriptor_witness:
  "(i_formats direct_info = Missing \<or> i_formats direct_info = Value [])
   \<and> i_url direct_info = Value (lit ''https://cdn.example/clip.mp4'')
   \<and> lit ''https://cdn.example/clip.mp4'' \<noteq> []
   \<and> i_title direct_info \<noteq> Null \<and> i_ext direct_info \<noteq> Null \<and> i_height direct_info \<noteq> Null
   \<and> formats_response direct_info = Inr direct_catalog
   \<and> map resolution (formats direct_catalog) = [lit ''?x720'']"
proof -
  have h1: "i_formats direct_info = Missing \<or> i_formats direct_info = Value []"
    by (simp add: direct_info_def)
  have h2: "i_url direct_info = Value (lit ''https://cdn.example/clip.mp4'')"
    by (simp add: direct_info_def)
  have h3: "lit ''https://cdn.example/clip.mp4'' \<noteq> []"
    by (simp add: lit_def)
  have h4: "i_title direct_info \<noteq> Null" and h5: "i_ext direct_info \<noteq> Null"
    and h6: "i_height direct_info \<noteq> Null"
    by (simp_all add: direct_info_def)
  have shown: "show_int 720 = lit ''720''"
    by code_simp
  from fallback_descriptor [OF h1 h2 h3 h4 h5 h6] obtain response where
    r: "formats_response direct_info = Inr response"
    and f: "formats response =
        [\<lparr>format_id = lit ''default'',
          ext = (case i_ext direct_info of Value e \<Rightarrow> e | _ \<Rightarrow> lit ''mp4''),
          resolution = format_or show_int (i_width direct_info) (lit ''?'') @ lit ''x''
                       @ format_or show_int (i_height direct_info) (lit ''?''),
          note' = lit ''Default Source'', type = lit ''combined'',
          filesize = get (i_filesize direct_info),
          height = (case i_height direct_info of Value h \<Rightarrow> h | _ \<Rightarrow> 0)\<rparr>]"
    by blast
  have c: "formats_response direct_info = Inr direct_catalog"
    by code_simp
  with r have "response = direct_catalog" by simp
  with f have res: "map resolution (formats direct_catalog) = [lit ''?x720'']"
    by (simp add: direct_info_def format_or_def shown lit_def)
  show ?thesis
    by (intro conjI h1 h2 h3 h4 h5 h6 c res)
qed

text \<open>
  C7 as the specification states it fails: a result with a height of 720 and no width
  has the resolution \<open>?x720\<close>, not \<open>?x?\<close>.
\<close>

theorem fallback_resolution_counterexample:
  "i_formats direct_info = Missing
   \<and> i_url direct_info = Value (lit ''https://cdn.example/clip.mp4'')
   \<and> i_width direct_info = Missing
   \<and> formats_response direct_info = Inr direct_catalog
   \<and> map type (formats direct_catalog) = [lit ''combined'']
   \<and> map resolution (formats direct_catalog) = [lit ''?x720'']
   \<and> lit ''?x720'' \<noteq> lit ''?x?''"
proof -
  have c1: "i_formats direct_info = Missing"
    and c2: "i_url direct_info = Value (lit ''https://cdn.example/clip.mp4'')"
    and c3: "i_width direct_info = Missing"
    by (simp_all add: direct_info_def)
  have c4: "formats_response direct_info = Inr direct_catalog"
    by code_simp
  have c5: "map type (formats direct_catalog) = [lit ''combined'']"
    and c6: "map resolution (formats direct_catalog) = [lit ''?x720'']"
    by (simp_all add: direct_catalog_def)
  have c7: "lit ''?x720'' \<noteq> lit ''?x?''"
    by (simp add: lit_def)
  show ?thesis
    by (intro conjI c1 c2 c3 c4 c5 c6 c7)
qed


section \<open>Properties of the workspace operations\<close>

lemma map_of_try_unlink:
  "map_of (try_unlink q ws) p = (if p = q \<and> removable (map_of ws q) then None else map_of ws p)"
  by (simp add: try_unlink_def unlink_def removable_def AList.delete_conv'
      split: option.splits entry.splits)

lemma map_of_purge:
  "map_of (purge fs ws) p = (if p \<in> set fs \<and> removable (map_of ws p) then None else map_of ws p)"
proof (induction fs arbitrary: ws)
  case Nil
  then show ?case by simp
next
  case (Cons f fs)
  let ?ws = "if exists_path ws f then try_unlink f ws else ws"
  have step: "map_of ?ws p = (if p = f \<and> removable (map_of ws f) then None else map_of ws p)"
    by (simp add: map_of_try_unlink exists_path_def removable_def)
  have "map_of (purge (f # fs) ws) p
      = (if p \<in> set fs \<and> removable (map_of ?ws p) then None else map_of ?ws p)"
    using Cons.IH [of ?ws] by simp
  also have "\<dots> = (if p \<in> set (f # fs) \<and> removable (map_of ws p) then None else map_of ws p)"
    unfolding step by (auto simp: removable_def)
  finally show ?case .
qed

lemma is_stale_map_of: "map_of ws1 p = map_of ws2 p \<Longrightarrow> is_stale t ws1 p = is_stale t ws2 p"
  by (simp add: is_stale_def)

lemma is_stale_exists: "map_of ws p = None \<Longrightarrow> \<not> is_stale t ws p"
  by (simp add: is_stale_def)

lemma map_of_cleanup_loop:
  "map_of (cleanup_loop t fs ws) p
     = (if p \<in> set fs \<and> is_stale t ws p \<and> removable (map_of ws p) then None else map_of ws p)"
proof (induction fs arbitrary: ws)
  case Nil
  then show ?case by simp
next
  case (Cons f fs)
  let ?ws = "if is_stale t ws f then try_unlink f ws else ws"
  have IH: "map_of (cleanup_loop t (f # fs) ws) p
      = (if p \<in> set fs \<and> is_stale t ?ws p \<and> removable (map_of ?ws p) then None else map_of ?ws p)"
    using Cons.IH [of ?ws] by simp
  have step: "map_of ?ws p
      = (if p = f \<and> is_stale t ws f \<and> removable (map_of ws f) then None else map_of ws p)"
    by (simp add: map_of_try_unlink)
  show ?case
  proof (cases "p = f \<and> is_stale t ws f \<and> removable (map_of ws f)")
    case True
    with step have gone: "map_of ?ws p = None" by simp
    from True have "p \<in> set (f # fs) \<and> is_stale t ws p \<and> removable (map_of ws p)" by simp
    then show ?thesis
      unfolding IH gone by simp
  next
    case False
    with step have same: "map_of ?ws p = map_of ws p" by simp
    have stale: "is_stale t ?ws p = is_stale t ws p"
      by (rule is_stale_map_of [OF same])
    show ?thesis
      unfolding IH same stale using False by auto
  qed
qed

lemma map_of_cleanup_old_files:
  "map_of (cleanup_old_files env ws) p
     = (if is_stale (now env) ws p \<and> removable (map_of ws p) then None else map_of ws p)"
proof -
  have "is_stale (now env) ws p \<Longrightarrow> p \<in> set (glob ws)"
    by (auto simp: is_stale_def glob_def split: option.splits dest: map_of_SomeD
        intro: rev_image_eqI)
  then show ?thesis
    by (auto simp: cleanup_old_files_def map_of_cleanup_loop)
qed

text \<open>
  The sweep, file by file: a regular file of the workspace older than 3600 seconds is
  gone after the sweep, unless its deletion fails, and then the failure is swallowed and
  the file stays; every other entry is as it was.
\<close>

lemma cleanup_old_files_sweeps:
  "map_of (cleanup_old_files env ws) p =
     (case map_of ws p of
        Some (File m c l) \<Rightarrow> if now env - m > 3600 \<and> \<not> l then None else Some (File m c l)
      | other \<Rightarrow> other)"
  by (simp add: map_of_cleanup_old_files is_stale_def removable_def
      split: option.splits entry.splits)

section \<open>Properties of the download handler\<close>

lemmas download_merged_defs =
  download_merged_def cookies_from_env_def truthy_seq_def pipeline_def info_opts_def
  request_proxy_def get_or_def video_stage_def audio_stage_def merge_stage_def deliver_stage_def
  stream_opts_def ffmpeg_cmd_def path_str_def video_file_def audio_file_def output_file_def
  job_id_def unlink_if_exists_def exists_path_def unlink_def try_unlink_def exn_str_def
  sanitize_filename_def invalid_chars_def lit_def latin1_def AList.delete_eq

lemmas sample_defs =
  sample_env_def sample_request_def sample_info_def sample_download_def sample_ffmpeg_def
  sample_delivery_def untitled_info_def

lemma sample_download_merged:
  "download_merged sample_env sample_request [] =
     (Returned sample_delivery, [(lit ''3f2a9c1e_merged.mp4'', File 10000 sample_output False)])"
  by (simp add: download_merged_defs sample_defs)

lemma deliver_stage_response:
  assumes "deliver_stage env t ws = (Inr response, ws')"
  shows \<open>content_file response = output_file env
   \<and> headers response =
       [(lit ''Content-Disposition'', lit ''attachment; filename="'' @ t @ lit ''.mp4"''),
        (lit ''Content-Type'', lit ''video/mp4'')]\<close>
proof -
  have quote: \<open>(t @ lit ''.mp4'') @ lit ''"'' = t @ lit ''.mp4"''\<close>
    by (simp add: lit_def)
  from assms show ?thesis
    unfolding quote [symmetric]
    by (auto simp: deliver_stage_def Let_def split: sum.splits if_splits)
qed

text \<open>
  A sanitized title with a character that latin-1 does not have makes the construction
  of the response raise, after the two stream files are gone.
\<close>

lemma deliver_stage_latin1:
  "\<not> latin1 t \<Longrightarrow> deliver_stage env t ws \<noteq> (Inr response, ws')"
  by (auto simp: deliver_stage_def Let_def latin1_def split: sum.splits)

lemma merge_stage_response:
  "merge_stage env t ws = (Inr response, ws') \<Longrightarrow>
   \<exists>ws1. deliver_stage env t ws1 = (Inr response, ws')"
  by (auto simp: merge_stage_def split: prod.splits sum.splits if_splits option.splits)

lemma audio_stage_response:
  "audio_stage env request cookie_file t ws = (Inr response, ws') \<Longrightarrow>
   \<exists>ws1. merge_stage env t ws1 = (Inr response, ws')"
  by (auto simp: audio_stage_def split: prod.splits sum.splits)

lemma video_stage_response:
  "video_stage env request cookie_file t ws = (Inr response, ws') \<Longrightarrow>
   \<exists>ws1. audio_stage env request cookie_file t ws1 = (Inr response, ws')"
  by (auto simp: video_stage_def split: prod.splits sum.splits)

lemma pipeline_response:
  assumes "pipeline env request cookie_file ws = (Inr response, ws')"
  shows \<open>\<exists>info ws1. extract_info env (url request) (info_opts request cookie_file) ws = (Inr info, ws1)
    \<and> i_title info \<noteq> Null
    \<and> headers response =
       [(lit ''Content-Disposition'',
         lit ''attachment; filename="''
         @ sanitize_filename (case i_title info of Value t \<Rightarrow> t | _ \<Rightarrow> lit ''video'')
         @ lit ''.mp4"''),
        (lit ''Content-Type'', lit ''video/mp4'')]\<close>
proof -
  from assms obtain info ws1 t where
    info: "extract_info env (url request) (info_opts request cookie_file) ws = (Inr info, ws1)"
    and t: "get_or (i_title info) (lit ''video'') = Some t"
    and v: "video_stage env request cookie_file (sanitize_filename t) ws1 = (Inr response, ws')"
    by (auto simp: pipeline_def split: prod.splits sum.splits option.splits)
  from t have title: "i_title info \<noteq> Null"
    and t': "t = (case i_title info of Value t \<Rightarrow> t | _ \<Rightarrow> lit ''video'')"
    by (auto simp: get_or_def split: field.splits)
  from v obtain w1 where "audio_stage env request cookie_file (sanitize_filename t) w1 = (Inr response, ws')"
    using video_stage_response by blast
  then obtain w2 where "merge_stage env (sanitize_filename t) w2 = (Inr response, ws')"
    using audio_stage_response by blast
  then obtain w3 where "deliver_stage env (sanitize_filename t) w3 = (Inr response, ws')"
    using merge_stage_response by blast
  from deliver_stage_response [OF this]
  have \<open>headers response =
       [(lit ''Content-Disposition'',
         lit ''attachment; filename="'' @ sanitize_filename t @ lit ''.mp4"''),
        (lit ''Content-Type'', lit ''video/mp4'')]\<close>
    by simp
  with info title show ?thesis
    unfolding t' by (intro exI conjI)
qed

lemma sanitize_video: "sanitize_filename (lit ''video'') = lit ''video''"
  by (simp add: sanitize_filename_def invalid_chars_def lit_def)

text \<open>
  A failure of each stage is the failure of the pipeline, with the stage's exception.
\<close>

lemma metadata_failure:
  "extract_info env (url request) (info_opts request cookie_file) ws = (Inl e, ws1) \<Longrightarrow>
   pipeline env request cookie_file ws = (Inl e, ws1)"
  by (simp add: pipeline_def)

lemma video_download_failure:
  "download env (url request)
     (stream_opts env request cookie_file (video_format request) (video_file env)) ws = (Inl e, ws1) \<Longrightarrow>
   video_stage env request cookie_file t ws = (Inl e, ws1)"
  by (simp add: video_stage_def)

lemma audio_download_failure:
  "download env (url request)
     (stream_opts env request cookie_file (audio_format request) (audio_file env)) ws = (Inl e, ws1) \<Longrightarrow>
   audio_stage env request cookie_file t ws = (Inl e, ws1)"
  by (simp add: audio_stage_def)

lemma merge_stage_failure:
  assumes "ffmpeg env (ffmpeg_cmd env) ws = (Inr process, ws1)"
    and "returncode process \<noteq> 0" and "decode_utf8 env (stderr process) = Some text"
  shows "merge_stage env t ws = (Inl (Exception (lit ''FFmpeg failed: '' @ text)), ws1)"
  using assms by (simp add: merge_stage_def)

lemma sample_output_chunks: "read_loop sample_output = [replicate 1048576 7, [7]]"
  by (simp add: sample_output_def read_loop_Cons read_loop_Nil chunk_size_def)

lemma interrupted_delivery:
  assumes "open_rb out ws = Inr bytes" and "n \<le> length (read_loop bytes)"
  shows "snd (snd (deliver n out Created ws)) = ws"
proof (cases n)
  case 0
  then show ?thesis by simp
next
  case (Suc k)
  have "deliver (Suc k) out Created ws = deliver (Suc k) out (Suspended bytes) ws"
    using assms(1) by simp
  with deliver_partial [OF assms(2), of out ws] Suc show ?thesis by simp
qed

text \<open>
  C10. For every download request that succeeds, the \<open>Content-Disposition\<close> header of
  the response is \<open>attachment; filename="\<close>, the sanitized title of the extracted
  metadata, \<open>.mp4"\<close>; when the metadata has no title (the key is missing) the title is
  \<open>video\<close> and the header is \<open>attachment; filename="video.mp4"\<close>. (A title stored as
  \<open>None\<close>, and a title with a character that latin-1 does not have, make the request
  fail.)
\<close>

theorem suggested_filename:
  assumes "download_merged env request ws = (Returned response, ws')"
  shows \<open>\<exists>cookie_file ws1 info ws2.
      cookies_from_env env ws = (Inr cookie_file, ws1)
    \<and> extract_info env (url request) (info_opts request cookie_file) ws1 = (Inr info, ws2)
    \<and> i_title info \<noteq> Null
    \<and> headers response =
       [(lit ''Content-Disposition'',
         lit ''attachment; filename="''
         @ sanitize_filename (case i_title info of Value t \<Rightarrow> t | _ \<Rightarrow> lit ''video'')
         @ lit ''.mp4"''),
        (lit ''Content-Type'', lit ''video/mp4'')]
    \<and> (i_title info = Missing \<longrightarrow>
         headers response =
           [(lit ''Content-Disposition'', lit ''attachment; filename="video.mp4"''),
            (lit ''Content-Type'', lit ''video/mp4'')])\<close>
proof -
  from assms obtain cookie_file ws1 where
    c: "cookies_from_env env ws = (Inr cookie_file, ws1)"
    and p: "pipeline env request cookie_file ws1 = (Inr response, ws')"
    by (auto simp: download_merged_def split: prod.splits sum.splits)
  from pipeline_response [OF p] obtain info ws2 where
    i: "extract_info env (url request) (info_opts request cookie_file) ws1 = (Inr info, ws2)"
    and n: "i_title info \<noteq> Null"
    and h: \<open>headers response =
       [(lit ''Content-Disposition'',
         lit ''attachment; filename="''
         @ sanitize_filename (case i_title info of Value t \<Rightarrow> t | _ \<Rightarrow> lit ''video'')
         @ lit ''.mp4"''),
        (lit ''Content-Type'', lit ''video/mp4'')]\<close>
    by blast
  have \<open>lit ''attachment; filename="'' @ lit ''video'' @ lit ''.mp4"''
      = lit ''attachment; filename="video.mp4"''\<close>
    by (simp add: lit_def)
  then have m: \<open>i_title info = Missing \<longrightarrow>
         headers response =
           [(lit ''Content-Disposition'', lit ''attachment; filename="video.mp4"''),
            (lit ''Content-Type'', lit ''video/mp4'')]\<close>
    by (simp add: h sanitize_video)
  show ?thesis
    by (intro exI conjI) (rule c i n h m)+
qed

theorem suggested_filename_witness:
  \<open>download_merged (sample_env\<lparr>extract_info := (\<lambda>u opts ws. (Inr untitled_info, ws))\<rparr>)
      sample_request []
     = (Returned (sample_delivery\<lparr>headers :=
           [(lit ''Content-Disposition'', lit ''attachment; filename="video.mp4"''),
            (lit ''Content-Type'', lit ''video/mp4'')]\<rparr>),
        [(lit ''3f2a9c1e_merged.mp4'', File 10000 sample_output False)])
   \<and> i_title untitled_info = Missing
   \<and> download_merged sample_env sample_request []
     = (Returned sample_delivery, [(lit ''3f2a9c1e_merged.mp4'', File 10000 sample_output False)])
   \<and> i_title sample_info = Value (lit ''My:Video/Title*'')
   \<and> headers sample_delivery =
        [(lit ''Content-Disposition'', lit ''attachment; filename="MyVideoTitle.mp4"''),
         (lit ''Content-Type'', lit ''video/mp4'')]\<close>
proof -
  let ?env = "sample_env\<lparr>extract_info := (\<lambda>u opts ws. (Inr untitled_info, ws))\<rparr>"
  let ?r = \<open>sample_delivery\<lparr>headers :=
           [(lit ''Content-Disposition'', lit ''attachment; filename="video.mp4"''),
            (lit ''Content-Type'', lit ''video/mp4'')]\<rparr>\<close>
  let ?ws = "[(lit ''3f2a9c1e_merged.mp4'', File 10000 sample_output False)]"
  have h1: "download_merged ?env sample_request [] = (Returned ?r, ?ws)"
    by (simp add: download_merged_defs sample_defs)
  have h2: "i_title untitled_info = Missing"
    by (simp add: untitled_info_def)
  have h3: "download_merged sample_env sample_request [] = (Returned sample_delivery, ?ws)"
    by (rule sample_download_merged)
  have h4: "i_title sample_info = Value (lit ''My:Video/Title*'')"
    by (simp add: sample_info_def)
  from suggested_filename [OF h3] obtain info where
    "extract_info sample_env (url sample_request) (info_opts sample_request None) [] = (Inr info, [])"
    and h: \<open>headers sample_delivery =
       [(lit ''Content-Disposition'',
         lit ''attachment; filename="''
         @ sanitize_filename (case i_title info of Value t \<Rightarrow> t | _ \<Rightarrow> lit ''video'')
         @ lit ''.mp4"''),
        (lit ''Content-Type'', lit ''video/mp4'')]\<close>
    by (auto simp: sample_env_def cookies_from_env_def truthy_seq_def)
  then have "info = sample_info"
    by (simp add: sample_env_def)
  with h have h5: \<open>headers sample_delivery =
        [(lit ''Content-Disposition'', lit ''attachment; filename="MyVideoTitle.mp4"''),
         (lit ''Content-Type'', lit ''video/mp4'')]\<close>
    by (simp add: sample_delivery_def)
  show ?thesis
    by (intro conjI h1 h2 h3 h4 h5)
qed

text \<open>
  C2, as the code has it. For every download request that fails inside the pipeline, at
  the metadata, at either stream download, at the combiner (which exits with a status
  other than zero) or after it, the caller receives an error of status 500 whose detail
  is the text of the exception raised, and this whatever files exist: the cleanup skips
  a path that is absent. Afterwards each of the job's three files is absent, unless
  its deletion failed (it was not a file that \<open>unlink\<close> removes); that failure is
  swallowed and the file stays.
\<close>

theorem failure_cleanup:
  assumes "cookies_from_env env ws = (Inr cookie_file, ws1)"
    and "pipeline env request cookie_file ws1 = (Inl e, ws2)"
  shows "\<exists>ws'. download_merged env request ws = (HTTPException 500 (exn_str env e), ws')
    \<and> (\<forall>p \<in> {video_file env, audio_file env, output_file env}.
          map_of ws' p = None \<or> \<not> removable (map_of ws2 p))"
proof -
  let ?ws = "purge [video_file env, audio_file env, output_file env] ws2"
  have result: "download_merged env request ws = (HTTPException 500 (exn_str env e), ?ws)"
    by (simp add: download_merged_def assms)
  have clean: "\<forall>p \<in> {video_file env, audio_file env, output_file env}.
      map_of ?ws p = None \<or> \<not> removable (map_of ws2 p)"
  proof
    fix p
    assume "p \<in> {video_file env, audio_file env, output_file env}"
    then have job: "p \<in> set [video_file env, audio_file env, output_file env]"
      by simp
    show "map_of ?ws p = None \<or> \<not> removable (map_of ws2 p)"
      unfolding map_of_purge using job by (cases "removable (map_of ws2 p)") simp_all
  qed
  show ?thesis
    by (intro exI conjI) (rule result clean)+
qed

text \<open>
  The specification's scenario: the combiner exits with status 2 and the error text
  \<open>invalid data found\<close>; the detail carries that text, and no file is left.
\<close>

theorem failure_cleanup_witness:
  "cookies_from_env (sample_env\<lparr>ffmpeg := failing_ffmpeg\<rparr>) [] = (Inr None, [])
   \<and> pipeline (sample_env\<lparr>ffmpeg := failing_ffmpeg\<rparr>) sample_request None []
     = (Inl (Exception (lit ''FFmpeg failed: invalid data found'')),
        [(lit ''3f2a9c1e_video.mp4'', File 10000 [1, 2, 3] False),
         (lit ''3f2a9c1e_audio.m4a'', File 10000 [1, 2, 3] False),
         (lit ''3f2a9c1e_merged.mp4'', File 10000 [7] False)])
   \<and> download_merged (sample_env\<lparr>ffmpeg := failing_ffmpeg\<rparr>) sample_request []
     = (HTTPException 500 (lit ''FFmpeg failed: invalid data found''), [])"
proof -
  let ?env = "sample_env\<lparr>ffmpeg := failing_ffmpeg\<rparr>"
  let ?ws2 = "[(lit ''3f2a9c1e_video.mp4'', File 10000 [1, 2, 3] False),
         (lit ''3f2a9c1e_audio.m4a'', File 10000 [1, 2, 3] False),
         (lit ''3f2a9c1e_merged.mp4'', File 10000 [7] False)]"
  have decoded: "ascii_decode (map of_nat (lit ''invalid data found'')) = Some (lit ''invalid data found'')"
    by code_simp
  have h1: "cookies_from_env ?env [] = (Inr None, [])"
    by (simp add: cookies_from_env_def sample_env_def truthy_seq_def)
  have h2: "pipeline ?env sample_request None []
      = (Inl (Exception (lit ''FFmpeg failed: invalid data found'')), ?ws2)"
    using decoded by (simp add: download_merged_defs sample_defs failing_ffmpeg_def)
  from failure_cleanup [OF h1 h2] obtain ws' where
    r: "download_merged ?env sample_request []
        = (HTTPException 500 (exn_str ?env (Exception (lit ''FFmpeg failed: invalid data found''))), ws')"
    and c: "\<forall>p \<in> {video_file ?env, audio_file ?env, output_file ?env}.
          map_of ws' p = None \<or> \<not> removable (map_of ?ws2 p)"
    by blast
  have "ws' = purge [video_file ?env, audio_file ?env, output_file ?env] ?ws2"
    using r by (simp add: download_merged_def h1 h2)
  then have "ws' = []"
    by (simp add: download_merged_defs sample_defs)
  with r have h3: "download_merged ?env sample_request []
      = (HTTPException 500 (lit ''FFmpeg failed: invalid data found''), [])"
    by (simp add: exn_str_def)
  show ?thesis
    by (intro conjI h1 h2 h3)
qed

text \<open>
  C2 as the specification states it fails: when the engine has left a video file that
  cannot be unlinked and then fails on the audio stream, the request ends in the error
  of status 500, and the video file still exists.
\<close>

theorem failure_cleanup_counterexample:
  "download_merged (sample_env\<lparr>download := locking_download\<rparr>) sample_request []
     = (HTTPException 500 (lit ''audio stream unavailable''),
        [(lit ''3f2a9c1e_video.mp4'', File 10000 [1, 2, 3] True)])
   \<and> video_file (sample_env\<lparr>download := locking_download\<rparr>) = lit ''3f2a9c1e_video.mp4''
   \<and> exists_path [(lit ''3f2a9c1e_video.mp4'', File 10000 [1, 2, 3] True)]
        (video_file (sample_env\<lparr>download := locking_download\<rparr>))"
proof -
  let ?env = "sample_env\<lparr>download := locking_download\<rparr>"
  have c1: "download_merged ?env sample_request []
     = (HTTPException 500 (lit ''audio stream unavailable''),
        [(lit ''3f2a9c1e_video.mp4'', File 10000 [1, 2, 3] True)])"
    by (simp add: download_merged_defs sample_defs locking_download_def)
  have c2: "video_file ?env = lit ''3f2a9c1e_video.mp4''"
    by (simp add: video_file_def job_id_def sample_env_def lit_def)
  have c3: "exists_path [(lit ''3f2a9c1e_video.mp4'', File 10000 [1, 2, 3] True)] (video_file ?env)"
    by (simp add: c2 exists_path_def)
  show ?thesis
    by (intro conjI c1 c2 c3)
qed

text \<open>
  C5 does not hold of the code for download requests. The sweep itself is as stated
  (\<open>cleanup_old_files_sweeps\<close>), and \<open>get_formats\<close> runs it first; \<open>download_merged\<close>
  never runs it. With a removable file 10000 seconds old in the workspace, a catalog
  request ends with the file gone, and a download request ends with the file in place.
\<close>

theorem download_merged_no_sweep:
  "is_stale (now sample_env) stale_workspace (lit ''0badcafe_merged.mp4'')
   \<and> removable (map_of stale_workspace (lit ''0badcafe_merged.mp4''))
   \<and> get_formats sample_env sample_url_request stale_workspace = (Returned sample_catalog, [])
   \<and> download_merged sample_env sample_request stale_workspace
     = (Returned sample_delivery,
        [(lit ''0badcafe_merged.mp4'', File 0 [9] False),
         (lit ''3f2a9c1e_merged.mp4'', File 10000 sample_output False)])"
proof -
  have s1: "is_stale (now sample_env) stale_workspace (lit ''0badcafe_merged.mp4'')"
    by (simp add: is_stale_def stale_workspace_def sample_env_def)
  have s2: "removable (map_of stale_workspace (lit ''0badcafe_merged.mp4''))"
    by (simp add: removable_def stale_workspace_def)
  have swept: "cleanup_old_files sample_env stale_workspace = []"
    by (simp add: cleanup_old_files_def glob_def stale_workspace_def is_stale_def sample_env_def
        try_unlink_def unlink_def AList.delete_eq)
  have catalog: "formats_response sample_info = Inr sample_catalog"
    by code_simp
  have s3: "get_formats sample_env sample_url_request stale_workspace = (Returned sample_catalog, [])"
    unfolding get_formats_def swept Let_def
    by (simp add: cookies_for_formats_def truthy_seq_def sample_env_def catalog)
  have s4: "download_merged sample_env sample_request stale_workspace
     = (Returned sample_delivery,
        [(lit ''0badcafe_merged.mp4'', File 0 [9] False),
         (lit ''3f2a9c1e_merged.mp4'', File 10000 sample_output False)])"
    by (simp add: download_merged_defs sample_defs stale_workspace_def)
  show ?thesis
    by (intro conjI s1 s2 s3 s4)
qed

text \<open>
  C1 does not hold of the code. The download of \<open>sample_request\<close> leaves an output
  file of one MiB and one byte. A delivery that ends after the first chunk, the
  generator being closed at its \<open>yield\<close>, leaves the output file in the workspace: the
  \<open>unlink\<close> after the \<open>with\<close> is never reached (\<open>interrupted_delivery\<close> has this for
  every file and every interruption). The delivery that runs to the end removes the
  file.
\<close>

theorem aborted_delivery_keeps_output:
  "download_merged sample_env sample_request []
     = (Returned sample_delivery, [(lit ''3f2a9c1e_merged.mp4'', File 10000 sample_output False)])
   \<and> content_file sample_delivery = lit ''3f2a9c1e_merged.mp4''
   \<and> deliver 1 (lit ''3f2a9c1e_merged.mp4'') Created
        [(lit ''3f2a9c1e_merged.mp4'', File 10000 sample_output False)]
     = ([replicate 1048576 7], Suspended [7],
        [(lit ''3f2a9c1e_merged.mp4'', File 10000 sample_output False)])
   \<and> close (Suspended [7]) [(lit ''3f2a9c1e_merged.mp4'', File 10000 sample_output False)]
     = (Finished, [(lit ''3f2a9c1e_merged.mp4'', File 10000 sample_output False)])
   \<and> exists_path [(lit ''3f2a9c1e_merged.mp4'', File 10000 sample_output False)]
        (lit ''3f2a9c1e_merged.mp4'')
   \<and> deliver 3 (lit ''3f2a9c1e_merged.mp4'') Created
        [(lit ''3f2a9c1e_merged.mp4'', File 10000 sample_output False)]
     = ([replicate 1048576 7, [7]], Finished, [])"
proof -
  let ?out = "lit ''3f2a9c1e_merged.mp4''"
  let ?ws = "[(?out, File 10000 sample_output False)]"
  have opened: "open_rb ?out ?ws = Inr sample_output"
    by (simp add: open_rb_def)
  have a1: "download_merged sample_env sample_request [] = (Returned sample_delivery, ?ws)"
    by (rule sample_download_merged)
  have a2: "content_file sample_delivery = ?out"
    by (simp add: sample_delivery_def)
  have "deliver 1 ?out (Suspended sample_output) ?ws
      = (take 1 (read_loop sample_output),
         Suspended (concat (drop 1 (read_loop sample_output))), ?ws)"
    by (rule deliver_partial) (simp add: sample_output_chunks)
  moreover have "deliver 1 ?out Created ?ws = deliver 1 ?out (Suspended sample_output) ?ws"
    by (simp add: opened)
  ultimately have a3: "deliver 1 ?out Created ?ws = ([replicate 1048576 7], Suspended [7], ?ws)"
    by (simp add: sample_output_chunks)
  have a4: "close (Suspended [7]) ?ws = (Finished, ?ws)"
    by (simp add: close_def)
  have a5: "exists_path ?ws ?out"
    by (simp add: exists_path_def)
  have "deliver 3 ?out Created ?ws = (read_loop sample_output, Finished, try_unlink ?out ?ws)"
    by (rule deliver_created [OF opened]) (simp add: sample_output_chunks)
  then have a6: "deliver 3 ?out Created ?ws = ([replicate 1048576 7, [7]], Finished, [])"
    by (simp add: sample_output_chunks try_unlink_def unlink_def AList.delete_eq)
  show ?thesis
    by (intro conjI a1 a2 a3 a4 a5 a6)
qed

end
